theory Spec2Isabelle
  imports Main "HOL-Library.Word" "HOL-Library.AList"
begin

section \<open>Python values used by the agent\<close>

text \<open>
  The program is one Python module, \<^verbatim>\<open>business_idea_agent.py\<close>. Python's \<^verbatim>\<open>str\<close> is
  modelled by \<^typ>\<open>string\<close>, one \<^typ>\<open>char\<close> per code point, so the model covers the
  strings whose code points are below 256 (Latin-1; MIME descriptors are ASCII).
  \<^verbatim>\<open>bytes\<close> is a list of 8-bit words, Python's \<^verbatim>\<open>int\<close> is \<^typ>\<open>int\<close>, and an
  exception is the \<open>Inl\<close> branch of a sum.
\<close>

type_synonym byte = "8 word"

datatype error =
    ValueError
  | IndexError
  | StructError
  | OSError
  | ProviderError
  | NoAudioData
  | NoTextResponse

text \<open>Sequencing of two steps either of which may raise.\<close>

definition bind_err :: "error + 'a \<Rightarrow> ('a \<Rightarrow> error + 'b) \<Rightarrow> error + 'b" where
  "bind_err m f = (case m of Inl e \<Rightarrow> Inl e | Inr v \<Rightarrow> f v)"

subsection \<open>String methods\<close>

definition code :: "char \<Rightarrow> nat" where
  "code c = of_char c"

text \<open>\<^verbatim>\<open>str.isspace\<close> on one code point below 256.\<close>

definition isspace :: "char \<Rightarrow> bool" where
  "isspace c = ((9 \<le> code c \<and> code c \<le> 13) \<or> (28 \<le> code c \<and> code c \<le> 32)
                 \<or> code c = 133 \<or> code c = 160)"

text \<open>\<^verbatim>\<open>str.strip()\<close> without argument: leading and trailing whitespace removed.\<close>

definition strip :: "string \<Rightarrow> string" where
  "strip s = rev (dropWhile isspace (rev (dropWhile isspace s)))"

text \<open>\<^verbatim>\<open>str.lower()\<close>: below 256 the cased capitals are A-Z and U+00C0-U+00DE without
  the multiplication sign U+00D7; each maps to the code point 32 above.\<close>

definition lower_char :: "char \<Rightarrow> char" where
  "lower_char c =
     (if (65 \<le> code c \<and> code c \<le> 90) \<or> (192 \<le> code c \<and> code c \<le> 222 \<and> code c \<noteq> 215)
      then char_of (code c + 32) else c)"

definition lower :: "string \<Rightarrow> string" where
  "lower s = map lower_char s"

definition startswith :: "string \<Rightarrow> string \<Rightarrow> bool" where
  "startswith s p = (take (length p) s = p)"

text \<open>\<^verbatim>\<open>s.split(sep)\<close> for a one-character separator: every occurrence splits, and the
  result always has at least one element.\<close>

fun split :: "char \<Rightarrow> string \<Rightarrow> string list" where
  "split sep [] = [[]]"
| "split sep (c # cs) =
     (if c = sep then [] # split sep cs
      else (case split sep cs of [] \<Rightarrow> [[c]] | p # ps \<Rightarrow> (c # p) # ps))"

text \<open>\<^verbatim>\<open>s.split(sep, 1)\<close>: at most one split, at the first occurrence.\<close>

definition split1 :: "char \<Rightarrow> string \<Rightarrow> string list" where
  "split1 sep s =
     (if sep \<in> set s
      then [takeWhile (\<lambda>c. c \<noteq> sep) s, tl (dropWhile (\<lambda>c. c \<noteq> sep) s)]
      else [s])"

text \<open>\<^verbatim>\<open>xs[i]\<close> for \<open>i \<ge> 0\<close>: IndexError out of range.\<close>

definition index :: "'a list \<Rightarrow> nat \<Rightarrow> error + 'a" where
  "index xs i = (if i < length xs then Inr (xs ! i) else Inl IndexError)"

subsection \<open>The built-in \<^verbatim>\<open>int(str)\<close>\<close>

text \<open>
  \<^verbatim>\<open>int(s)\<close> in base 10 skips whitespace on both sides, reads an optional sign and then
  decimal digits, where single underscores may stand between digits; anything else is a
  ValueError. The whitespace it skips is that of \<^verbatim>\<open>str.isspace\<close> without the four
  separators U+001C-U+001F. The interpreter refuses a numeral of more than
  \<^verbatim>\<open>sys.get_int_max_str_digits()\<close> digits with a ValueError as well (checked above 640
  digits; the setting is 4300 unless changed, and 0 switches the check off): that setting
  is the parameter \<open>lim\<close>.
\<close>

definition is_digit :: "char \<Rightarrow> bool" where
  "is_digit c = (48 \<le> code c \<and> code c \<le> 57)"

definition int_space :: "char \<Rightarrow> bool" where
  "int_space c = ((9 \<le> code c \<and> code c \<le> 13) \<or> code c = 32 \<or> code c = 133 \<or> code c = 160)"

definition digit_val :: "char \<Rightarrow> int" where
  "digit_val c = int (code c) - 48"

definition decimal :: "string \<Rightarrow> int" where
  "decimal ds = foldl (\<lambda>a c. 10 * a + digit_val c) 0 ds"

fun double_underscore :: "string \<Rightarrow> bool" where
  "double_underscore (a # b # cs) =
     ((a = CHR ''_'' \<and> b = CHR ''_'') \<or> double_underscore (b # cs))"
| "double_underscore _ = False"

definition numeral_char :: "char \<Rightarrow> bool" where
  "numeral_char c = (is_digit c \<or> c = CHR ''_'')"

definition negative :: "string \<Rightarrow> bool" where
  "negative s = (case s of [] \<Rightarrow> False | c # cs \<Rightarrow> c = CHR ''-'')"

definition skip_sign :: "string \<Rightarrow> string" where
  "skip_sign s =
     (case s of [] \<Rightarrow> [] | c # cs \<Rightarrow> if c = CHR ''+'' \<or> c = CHR ''-'' then cs else s)"

definition numeral_ok :: "string \<Rightarrow> bool" where
  "numeral_ok body =
     (body \<noteq> [] \<and> hd body \<noteq> CHR ''_'' \<and> last body \<noteq> CHR ''_'' \<and> \<not> double_underscore body)"

definition too_long :: "nat \<Rightarrow> string \<Rightarrow> bool" where
  "too_long lim ds = (640 < length ds \<and> 0 < lim \<and> lim < length ds)"

definition py_int :: "nat \<Rightarrow> string \<Rightarrow> error + int" where
  "py_int lim s =
     (let s1 = dropWhile int_space s;
          s2 = skip_sign s1;
          body = takeWhile numeral_char s2;
          rest = dropWhile numeral_char s2;
          ds = filter is_digit body
      in if \<not> numeral_ok body \<or> dropWhile int_space rest \<noteq> [] then Inl ValueError
         else if too_long lim ds then Inl ValueError
         else Inr ((if negative s1 then - 1 else 1) * decimal ds))"

subsection \<open>\<^verbatim>\<open>struct.pack\<close> with a little-endian format\<close>

text \<open>The formats \<^verbatim>\<open>I\<close> and \<^verbatim>\<open>H\<close> take an integer of 4 and 2 bytes, unsigned, and
  raise \<^verbatim>\<open>struct.error\<close> for a value outside the range; \<^verbatim>\<open>4s\<close> takes four bytes,
  cutting a longer argument and filling a shorter one with zero bytes.\<close>

datatype field = S4 "byte list" | U32 int | U16 int

definition le_bytes :: "nat \<Rightarrow> int \<Rightarrow> byte list" where
  "le_bytes k v = map (\<lambda>i. word_of_int (v div 256 ^ i)) [0..<k]"

definition pack_uint :: "nat \<Rightarrow> int \<Rightarrow> error + byte list" where
  "pack_uint k v = (if 0 \<le> v \<and> v < 256 ^ k then Inr (le_bytes k v) else Inl StructError)"

fun pack_field :: "field \<Rightarrow> error + byte list" where
  "pack_field (S4 bs) = Inr (take 4 (bs @ replicate (4 - length bs) 0))"
| "pack_field (U32 v) = pack_uint 4 v"
| "pack_field (U16 v) = pack_uint 2 v"

fun struct_pack :: "field list \<Rightarrow> error + byte list" where
  "struct_pack [] = Inr []"
| "struct_pack (f # fs) =
     bind_err (pack_field f) (\<lambda>b. bind_err (struct_pack fs) (\<lambda>bs. Inr (b @ bs)))"

definition ascii :: "string \<Rightarrow> byte list" where
  "ascii s = map of_char s"

section \<open>The agent object\<close>

text \<open>The fields \<^verbatim>\<open>__init__\<close> sets on \<^verbatim>\<open>self\<close>; a path is the list of its components.\<close>

type_synonym path = "string list"

record agent =
  gemini_api_key :: string
  resend_api_key :: "string option"
  user_email :: string
  output_dir :: path
  pending_dir :: path
  evaluated_dir :: path

section \<open>Raw audio to WAV\<close>

record audio_params =
  bits_per_sample :: int
  rate :: int

text \<open>One pass of the loop body of \<^verbatim>\<open>_parse_audio_mime_type\<close>. The handlers catch
  ValueError and IndexError and nothing else.\<close>

definition caught :: "error \<Rightarrow> bool" where
  "caught e = (e = ValueError \<or> e = IndexError)"

definition parse_param :: "nat \<Rightarrow> string \<Rightarrow> audio_params \<Rightarrow> error + audio_params" where
  "parse_param lim param0 acc =
     (let param = strip param0 in
      if startswith (lower param) ''rate='' then
        (case bind_err (index (split1 CHR ''='' param) 1) (py_int lim) of
           Inr v \<Rightarrow> Inr (acc\<lparr>rate := v\<rparr>)
         | Inl e \<Rightarrow> if caught e then Inr acc else Inl e)
      else if startswith param ''audio/L'' then
        (case bind_err (index (split1 CHR ''L'' param) 1) (py_int lim) of
           Inr v \<Rightarrow> Inr (acc\<lparr>bits_per_sample := v\<rparr>)
         | Inl e \<Rightarrow> if caught e then Inr acc else Inl e)
      else Inr acc)"

fun parse_loop :: "nat \<Rightarrow> string list \<Rightarrow> audio_params \<Rightarrow> error + audio_params" where
  "parse_loop lim [] acc = Inr acc"
| "parse_loop lim (p # ps) acc = bind_err (parse_param lim p acc) (parse_loop lim ps)"

definition parse_audio_mime_type :: "agent \<Rightarrow> nat \<Rightarrow> string \<Rightarrow> error + audio_params" where
  "parse_audio_mime_type self lim mime_type =
     parse_loop lim (split CHR '';'' mime_type) \<lparr>bits_per_sample = 16, rate = 24000\<rparr>"

definition convert_to_wav :: "agent \<Rightarrow> nat \<Rightarrow> byte list \<Rightarrow> string \<Rightarrow> error + byte list" where
  "convert_to_wav self lim audio_data mime_type =
     bind_err (parse_audio_mime_type self lim mime_type) (\<lambda>parameters.
       let bits = bits_per_sample parameters;
           sample_rate = rate parameters;
           num_channels = 1;
           data_size = int (length audio_data);
           bytes_per_sample = bits div 8;
           block_align = num_channels * bytes_per_sample;
           byte_rate = sample_rate * block_align;
           chunk_size = 36 + data_size
       in bind_err
            (struct_pack
               [S4 (ascii ''RIFF''), U32 chunk_size, S4 (ascii ''WAVE''), S4 (ascii ''fmt ''),
                U32 16, U16 1, U16 num_channels, U32 sample_rate, U32 byte_rate,
                U16 block_align, U16 bits, S4 (ascii ''data''), U32 data_size])
            (\<lambda>header. Inr (header @ audio_data)))"

text \<open>Reading a little-endian unsigned field back, for stating what the header holds.\<close>

definition le_val :: "byte list \<Rightarrow> int" where
  "le_val bs = foldr (\<lambda>b a. uint b + 256 * a) bs 0"

definition field_at :: "nat \<Rightarrow> nat \<Rightarrow> byte list \<Rightarrow> byte list" where
  "field_at off len bs = take len (drop off bs)"

text \<open>The header as the specification's table of section 4.1 lays it out, field by field,
  for parsed parameters \<open>p\<close> and a payload of \<open>n\<close> bytes; the encoder of the source is
  compared with it below.\<close>

definition spec_wav_header :: "audio_params \<Rightarrow> nat \<Rightarrow> byte list" where
  "spec_wav_header p n =
     ascii ''RIFF'' @ le_bytes 4 (36 + int n) @ ascii ''WAVE'' @ ascii ''fmt '' @
     le_bytes 4 16 @ le_bytes 2 1 @ le_bytes 2 1 @ le_bytes 4 (rate p) @
     le_bytes 4 (rate p * (bits_per_sample p div 8)) @ le_bytes 2 (bits_per_sample p div 8) @
     le_bytes 2 (bits_per_sample p) @ ascii ''data'' @ le_bytes 4 (int n)"

text \<open>A parameter of the descriptor that the parser looks at: after stripping, it starts
  with \<^verbatim>\<open>rate=\<close> in any letter case, or with \<^verbatim>\<open>audio/L\<close>.\<close>

definition recognised :: "string \<Rightarrow> bool" where
  "recognised p = (startswith (lower (strip p)) ''rate='' \<or> startswith (strip p) ''audio/L'')"

text \<open>An agent as \<^verbatim>\<open>__init__\<close> leaves it when only the language-model key is set.\<close>

definition example_agent :: agent where
  "example_agent =
     \<lparr>gemini_api_key = ''key'', resend_api_key = None,
      user_email = ''daniel@danielrosehill.com'',
      output_dir = [''agent'', ''feedback''],
      pending_dir = [''agent'', ''user-ideas'', ''pending''],
      evaluated_dir = [''agent'', ''user-ideas'', ''evaluated'']\<rparr>"

section \<open>The world outside the program\<close>

text \<open>
  Everything the program reaches beyond its own values is explicit state or a parameter.
  The state (\<open>world\<close>) holds the file system, the number of interactions with the outside
  so far (\<open>tick\<close>), the number of chunks taken from speech streams, and the e-mail requests
  posted. The collaborators (\<open>env\<close>) are functions: the clock, the two Gemini endpoints,
  \<^verbatim>\<open>mimetypes.guess_extension\<close>, the PDF builder and the e-mail endpoint. Each answer may
  depend on the tick at which it is asked, so repeated calls need not agree. Output
  printed to the terminal is not part of the model.
\<close>

subsection \<open>Files and directories\<close>

datatype file_data = Text string | Bytes "byte list"

datatype node = Dir | File file_data

record email_attachment =
  att_filename :: string
  att_content :: file_data
  att_content_type :: string

record email =
  email_from :: string
  email_to :: "string list"
  email_subject :: string
  email_summary :: string
  email_attachments :: "email_attachment list"

record world =
  fs :: "(path \<times> node) list"
  tick :: nat
  stream_reads :: nat
  sent :: "email list"

definition lookup :: "world \<Rightarrow> path \<Rightarrow> node option" where
  "lookup w p = map_of (fs w) p"

text \<open>The empty path is the working directory, which is always there.\<close>

definition path_exists :: "world \<Rightarrow> path \<Rightarrow> bool" where
  "path_exists w p = (p = [] \<or> lookup w p \<noteq> None)"

definition is_dir :: "world \<Rightarrow> path \<Rightarrow> bool" where
  "is_dir w p = (p = [] \<or> lookup w p = Some Dir)"

definition store :: "path \<Rightarrow> node \<Rightarrow> world \<Rightarrow> world" where
  "store p n w = w\<lparr>fs := AList.update p n (fs w)\<rparr>"

text \<open>\<^verbatim>\<open>Path.mkdir(exist_ok=True)\<close>: an existing directory is left alone; a file in
  the way or a missing parent is an error.\<close>

definition mkdir_exist_ok :: "path \<Rightarrow> world \<Rightarrow> (error + unit) \<times> world" where
  "mkdir_exist_ok p w =
     (if is_dir w p then (Inr (), w)
      else if path_exists w p then (Inl OSError, w)
      else if is_dir w (butlast p) then (Inr (), store p Dir w)
      else (Inl OSError, w))"

text \<open>Opening a file for writing and writing all of it: the parent directory must
  exist, and the path must not be a directory.\<close>

definition write_file :: "path \<Rightarrow> file_data \<Rightarrow> world \<Rightarrow> (error + unit) \<times> world" where
  "write_file p c w =
     (if is_dir w p \<or> \<not> is_dir w (butlast p) then (Inl OSError, w)
      else (Inr (), store p (File c) w))"

definition read_file :: "path \<Rightarrow> world \<Rightarrow> error + file_data" where
  "read_file p w = (case lookup w p of Some (File c) \<Rightarrow> Inr c | _ \<Rightarrow> Inl OSError)"

text \<open>\<^verbatim>\<open>Path.rename\<close> of a file, replacing a file at the target. The program renames
  only paths it has just written or read as files; a directory as the source is outside
  the model and answered with an error.\<close>

definition rename :: "path \<Rightarrow> path \<Rightarrow> world \<Rightarrow> (error + unit) \<times> world" where
  "rename src dst w =
     (case lookup w src of
        Some (File c) \<Rightarrow>
          if is_dir w dst \<or> \<not> is_dir w (butlast dst) then (Inl OSError, w)
          else (Inr (), store dst (File c) (w\<lparr>fs := AList.delete src (fs w)\<rparr>))
      | _ \<Rightarrow> (Inl OSError, w))"

text \<open>\<^verbatim>\<open>Path.name\<close>, \<^verbatim>\<open>str(path)\<close> and the substring test \<^verbatim>\<open>sub in s\<close>.\<close>

definition path_name :: "path \<Rightarrow> string" where
  "path_name p = (if p = [] then [] else last p)"

fun join_with :: "string \<Rightarrow> string list \<Rightarrow> string" where
  "join_with sep [] = []"
| "join_with sep [x] = x"
| "join_with sep (x # y # ys) = x @ sep @ join_with sep (y # ys)"

definition str_path :: "path \<Rightarrow> string" where
  "str_path p = (if p = [] then ''.'' else join_with ''/'' p)"

fun contains :: "string \<Rightarrow> string \<Rightarrow> bool" where
  "contains sub [] = (sub = [])"
| "contains sub (c # cs) = (startswith (c # cs) sub \<or> contains sub cs)"

definition endswith :: "string \<Rightarrow> string \<Rightarrow> bool" where
  "endswith s suf = (length suf \<le> length s \<and> drop (length s - length suf) s = suf)"

subsection \<open>More string methods\<close>

text \<open>\<^verbatim>\<open>s.replace(old, new)\<close> for a non-empty \<open>old\<close>, from left to right without
  overlap. (The program never passes an empty \<open>old\<close>; the model then leaves \<open>s\<close> as it is.)\<close>

function replace :: "string \<Rightarrow> string \<Rightarrow> string \<Rightarrow> string" where
  "replace old new s =
     (if s = [] \<or> old = [] then s
      else if startswith s old then new @ replace old new (drop (length old) s)
      else hd s # replace old new (tl s))"
  by pat_completeness auto
termination
  by (relation "measure (\<lambda>(old, new, s). length s)") auto

declare replace.simps [simp del]

text \<open>\<^verbatim>\<open>str.isalnum\<close> on one code point below 256: the digits, the letters, and the
  Latin-1 letters and numeric signs.\<close>

definition isalnum :: "char \<Rightarrow> bool" where
  "isalnum c =
     ((48 \<le> code c \<and> code c \<le> 57) \<or> (65 \<le> code c \<and> code c \<le> 90)
      \<or> (97 \<le> code c \<and> code c \<le> 122)
      \<or> code c = 170 \<or> code c = 178 \<or> code c = 179 \<or> code c = 181 \<or> code c = 185
      \<or> code c = 186 \<or> (188 \<le> code c \<and> code c \<le> 190)
      \<or> (192 \<le> code c \<and> code c \<le> 214) \<or> (216 \<le> code c \<and> code c \<le> 246)
      \<or> (248 \<le> code c \<and> code c \<le> 255))"

definition nl :: string where
  "nl = [CHR 0x0A]"

definition dq :: string where
  "dq = [CHR 0x22]"

subsection \<open>The clock\<close>

text \<open>A \<^verbatim>\<open>datetime\<close> value; Python keeps the year within 1..9999 and the other fields
  within their calendar ranges. The formats are those of \<^verbatim>\<open>strftime\<close> and
  \<^verbatim>\<open>isoformat\<close> in the C locale.\<close>

record datetime =
  year :: nat
  month :: nat
  day :: nat
  hour :: nat
  minute :: nat
  second :: nat
  microsecond :: nat

definition digit_char :: "nat \<Rightarrow> char" where
  "digit_char n = char_of (48 + n mod 10)"

definition pad2 :: "nat \<Rightarrow> string" where
  "pad2 n = [digit_char (n div 10), digit_char n]"

definition pad4 :: "nat \<Rightarrow> string" where
  "pad4 n = [digit_char (n div 1000), digit_char (n div 100), digit_char (n div 10), digit_char n]"

definition pad6 :: "nat \<Rightarrow> string" where
  "pad6 n = [digit_char (n div 100000), digit_char (n div 10000), digit_char (n div 1000),
             digit_char (n div 100), digit_char (n div 10), digit_char n]"

text \<open>\<^verbatim>\<open>strftime("%Y%m%d_%H%M%S")\<close>\<close>

definition strftime_stamp :: "datetime \<Rightarrow> string" where
  "strftime_stamp t =
     pad4 (year t) @ pad2 (month t) @ pad2 (day t) @ ''_'' @
     pad2 (hour t) @ pad2 (minute t) @ pad2 (second t)"

definition isoformat :: "datetime \<Rightarrow> string" where
  "isoformat t =
     pad4 (year t) @ ''-'' @ pad2 (month t) @ ''-'' @ pad2 (day t) @ ''T'' @
     pad2 (hour t) @ '':'' @ pad2 (minute t) @ '':'' @ pad2 (second t) @
     (if microsecond t = 0 then [] else ''.'' @ pad6 (microsecond t))"

definition month_name :: "nat \<Rightarrow> string" where
  "month_name m =
     (if 1 \<le> m \<and> m \<le> 12
      then [''January'', ''February'', ''March'', ''April'', ''May'', ''June'', ''July'',
            ''August'', ''September'', ''October'', ''November'', ''December''] ! (m - 1)
      else [])"

text \<open>\<^verbatim>\<open>strftime('%B %d, %Y at %I:%M %p')\<close>\<close>

definition strftime_long :: "datetime \<Rightarrow> string" where
  "strftime_long t =
     month_name (month t) @ '' '' @ pad2 (day t) @ '', '' @ pad4 (year t) @ '' at '' @
     pad2 (if hour t mod 12 = 0 then 12 else hour t mod 12) @ '':'' @ pad2 (minute t) @ '' '' @
     (if hour t < 12 then ''AM'' else ''PM'')"

subsection \<open>The speech stream's chunks\<close>

text \<open>The part of a streamed response the program looks at. An optional attribute is
  an \<open>option\<close>; Python takes \<open>None\<close>, an empty list and empty bytes as false.\<close>

record blob =
  data :: "byte list option"
  mime_type :: string

record part =
  inline_data :: "blob option"

record content_msg =
  parts :: "part list option"

record candidate =
  content :: "content_msg option"

record chunk =
  candidates :: "candidate list option"

subsection \<open>The collaborators\<close>

record env =
  getenv :: "string \<Rightarrow> string option"
  int_max_str_digits :: nat
  now :: "nat \<Rightarrow> datetime"
  generate_content :: "nat \<Rightarrow> string \<Rightarrow> error + string option"
  generate_content_stream :: "nat \<Rightarrow> string \<Rightarrow> (error + chunk) list"
  guess_extension :: "string \<Rightarrow> string option"
  build_pdf :: "nat \<Rightarrow> string \<Rightarrow> string \<Rightarrow> string \<Rightarrow> error + byte list"
  requests_post :: "nat \<Rightarrow> email \<Rightarrow> error + nat"
  decode_text :: "byte list \<Rightarrow> error + string"

text \<open>
  \<^item> \<open>generate_content tick prompt\<close> is \<^verbatim>\<open>client.models.generate_content\<close>: an
    exception, or the response's \<^verbatim>\<open>text\<close>, which may be missing.
  \<^item> \<open>generate_content_stream tick prompt\<close> is the speech stream: each element is a chunk,
    or the exception raised when that element is asked for.
  \<^item> \<open>build_pdf tick date idea analysis\<close> is reportlab laying the document out.
  \<^item> \<open>requests_post tick request\<close> is the POST to the e-mail endpoint: an exception or
    the status code. The request is recorded with its attachments as read from the files;
    their base64 text is not computed.
  \<^item> \<open>decode_text\<close> decodes a file written as bytes when it is read as text.
\<close>

definition read_text :: "env \<Rightarrow> path \<Rightarrow> world \<Rightarrow> error + string" where
  "read_text env p w =
     bind_err (read_file p w) (\<lambda>c. case c of Text t \<Rightarrow> Inr t | Bytes b \<Rightarrow> decode_text env b)"

text \<open>Sequencing of steps that change the world and may raise: what was done before
  the exception stays done.\<close>

definition bind_w ::
  "(error + 'a) \<times> world \<Rightarrow> ('a \<Rightarrow> world \<Rightarrow> (error + 'b) \<times> world) \<Rightarrow> (error + 'b) \<times> world" where
  "bind_w m f = (case m of (Inl e, w) \<Rightarrow> (Inl e, w) | (Inr v, w) \<Rightarrow> f v w)"

text \<open>The text of a response, empty when there is none: \<^verbatim>\<open>if response.text:\<close> asks
  whether it is non-empty. The same test serves for an environment variable.\<close>

definition text_of :: "string option \<Rightarrow> string" where
  "text_of t = (case t of None \<Rightarrow> [] | Some s \<Rightarrow> s)"

section \<open>The agent's methods\<close>

subsection \<open>Construction\<close>

definition init_agent :: "env \<Rightarrow> world \<Rightarrow> (error + agent) \<times> world" where
  "init_agent env w =
     (if text_of (getenv env ''GEMINI_API_KEY'') = [] then (Inl ValueError, w)
      else
        let self = \<lparr>gemini_api_key = text_of (getenv env ''GEMINI_API_KEY''),
                    resend_api_key = getenv env ''RESEND_API_KEY'',
                    user_email = (case getenv env ''USER_EMAIL'' of
                                    None \<Rightarrow> ''daniel@danielrosehill.com'' | Some u \<Rightarrow> u),
                    output_dir = [''agent'', ''feedback''],
                    pending_dir = [''agent'', ''user-ideas'', ''pending''],
                    evaluated_dir = [''agent'', ''user-ideas'', ''evaluated'']\<rparr>
        in bind_w (mkdir_exist_ok (output_dir self) w) (\<lambda>u w1.
           bind_w (mkdir_exist_ok (evaluated_dir self) w1) (\<lambda>u w2. (Inr self, w2))))"

subsection \<open>The critique and the filename suggestion\<close>

definition fallback_system_prompt :: string where
  "fallback_system_prompt =
     ''Your purpose is to act as a friendly and helpful business refinement agent. '' @ nl @
     ''            Your task is to assist the user by providing analysis, evaluation and feedback upon a business idea.'' @ nl @
     ''            Write in a conversational style as Herman Poppleberry, addressing Daniel directly.''"

definition load_system_prompt :: "agent \<Rightarrow> env \<Rightarrow> world \<Rightarrow> error + string" where
  "load_system_prompt self env w =
     (let prompt_file = [''design'', ''system-prompt.md''] in
      if path_exists w prompt_file
      then bind_err (read_text env prompt_file w) (\<lambda>t. Inr (strip t))
      else Inr fallback_system_prompt)"

definition filename_prompt :: "string \<Rightarrow> string" where
  "filename_prompt business_idea =
     ''Based on this business idea, suggest a short, descriptive filename (2-4 words, kebab-case) that captures the essence of the idea:'' @
     nl @ nl @ business_idea @ nl @ nl @
     ''Respond with ONLY the filename suggestion, no explanation. Examples: '' @
     dq @ ''ai-fitness-coach'' @ dq @ '', '' @ dq @ ''smart-plant-monitor'' @ dq @ '', '' @
     dq @ ''crypto-learning-app'' @ dq @ ''.''"

definition clean_suggestion :: "string \<Rightarrow> string" where
  "clean_suggestion response_text =
     (let suggestion = lower (strip response_text);
          suggestion = replace ''_'' ''-'' (replace '' '' ''-'' suggestion)
      in filter (\<lambda>c. isalnum c \<or> c = CHR ''-'') suggestion)"

text \<open>\<^verbatim>\<open>generate_filename_suggestion\<close> catches every exception and then answers
  \<^verbatim>\<open>business-idea\<close>, as it does for a response without text.\<close>

definition generate_filename_suggestion :: "agent \<Rightarrow> env \<Rightarrow> string \<Rightarrow> world \<Rightarrow> string \<times> world" where
  "generate_filename_suggestion self env business_idea w =
     (let w1 = w\<lparr>tick := Suc (tick w)\<rparr> in
      case generate_content env (tick w) (filename_prompt business_idea) of
        Inl e \<Rightarrow> (''business-idea'', w1)
      | Inr response \<Rightarrow>
          if text_of response \<noteq> [] then (clean_suggestion (text_of response), w1)
          else (''business-idea'', w1))"

definition analyze_business_idea ::
  "agent \<Rightarrow> env \<Rightarrow> string \<Rightarrow> world \<Rightarrow> (error + string) \<times> world" where
  "analyze_business_idea self env business_idea w =
     (case load_system_prompt self env w of
        Inl e \<Rightarrow> (Inl e, w)
      | Inr system_prompt \<Rightarrow>
          let full_prompt = system_prompt @ nl @ nl @
                ''Here is the business idea for you to analyze:'' @ nl @ nl @ business_idea;
              w1 = w\<lparr>tick := Suc (tick w)\<rparr>
          in case generate_content env (tick w) full_prompt of
               Inl e \<Rightarrow> (Inl e, w1)
             | Inr response \<Rightarrow>
                 if text_of response \<noteq> [] then (Inr (text_of response), w1)
                 else (Inl NoTextResponse, w1))"

subsection \<open>The speech\<close>

definition voice_instruction :: "string \<Rightarrow> string" where
  "voice_instruction voice_style =
     (if voice_style = ''serious'' then
        ''Read this text in a stern and authoritative voice. Emulate the cadence and tone of voice of a judge delivering a verdict.''
      else if voice_style = ''flippant'' then
        ''Read this text with a sense of sadness and defeatism as if you are delivering hopeless news to somebody.''
      else
        ''Read this text in a highly encouraging and upbeat tone of voice - the kind that you might hear in a cheesy radio informercial'')"

text \<open>The test of the loop body: the first candidate has a content with parts, and the
  first part has inline data with non-empty bytes. The result is those bytes and the
  declared content type.\<close>

definition inline_audio :: "chunk \<Rightarrow> (byte list \<times> string) option" where
  "inline_audio c =
     (case candidates c of
        None \<Rightarrow> None
      | Some cands \<Rightarrow>
          (case cands of
             [] \<Rightarrow> None
           | cand # cands' \<Rightarrow>
               (case content cand of
                  None \<Rightarrow> None
                | Some ct \<Rightarrow>
                    (case parts ct of
                       None \<Rightarrow> None
                     | Some ps \<Rightarrow>
                         (case ps of
                            [] \<Rightarrow> None
                          | p # ps' \<Rightarrow>
                              (case inline_data p of
                                 None \<Rightarrow> None
                               | Some b \<Rightarrow>
                                   (case data b of
                                      None \<Rightarrow> None
                                    | Some bytes \<Rightarrow>
                                        if bytes = [] then None
                                        else Some (bytes, mime_type b))))))))"

definition save_binary_file :: "agent \<Rightarrow> path \<Rightarrow> byte list \<Rightarrow> world \<Rightarrow> (error + unit) \<times> world" where
  "save_binary_file self file_path bytes w = write_file file_path (Bytes bytes) w"

text \<open>What the loop body does with the inline data of a chunk it accepts.\<close>

definition write_audio ::
  "agent \<Rightarrow> env \<Rightarrow> string \<Rightarrow> byte list \<times> string \<Rightarrow> world \<Rightarrow> (error + path) \<times> world" where
  "write_audio self env audio_filename inline w =
     (case (case guess_extension env (snd inline) of
              None \<Rightarrow>
                bind_err (convert_to_wav self (int_max_str_digits env) (fst inline) (snd inline))
                  (\<lambda>wav. Inr (''.wav'', wav))
            | Some ext \<Rightarrow> Inr (ext, fst inline)) of
        Inl e \<Rightarrow> (Inl e, w)
      | Inr (file_extension, data_buffer) \<Rightarrow>
          let final_path = output_dir self @ [replace ''.wav'' [] audio_filename @ file_extension]
          in bind_w (save_binary_file self final_path data_buffer w) (\<lambda>u w1. (Inr final_path, w1)))"

text \<open>The \<^verbatim>\<open>for\<close> loop over the stream. Each element asked for is counted in
  \<open>stream_reads\<close>; the loop returns from inside at the first chunk it accepts, and an
  exhausted stream ends in the exception "No audio data received from TTS".\<close>

fun consume_stream ::
  "agent \<Rightarrow> env \<Rightarrow> string \<Rightarrow> (error + chunk) list \<Rightarrow> world \<Rightarrow> (error + path) \<times> world" where
  "consume_stream self env audio_filename [] w = (Inl NoAudioData, w)"
| "consume_stream self env audio_filename (Inl e # rest) w =
     (Inl e, w\<lparr>stream_reads := Suc (stream_reads w)\<rparr>)"
| "consume_stream self env audio_filename (Inr c # rest) w =
     (let w1 = w\<lparr>stream_reads := Suc (stream_reads w)\<rparr> in
      case inline_audio c of
        None \<Rightarrow> consume_stream self env audio_filename rest w1
      | Some inline \<Rightarrow> write_audio self env audio_filename inline w1)"

definition generate_audio_feedback ::
  "agent \<Rightarrow> env \<Rightarrow> string \<Rightarrow> string \<Rightarrow> world \<Rightarrow> (error + path) \<times> world" where
  "generate_audio_feedback self env analysis_text voice_style w =
     (let tts_prompt = voice_instruction voice_style @ nl @ nl @ analysis_text;
          timestamp = strftime_stamp (now env (tick w));
          audio_filename = ''business_analysis_'' @ timestamp @ ''.wav'';
          stream = generate_content_stream env (Suc (tick w)) tts_prompt
      in consume_stream self env audio_filename stream (w\<lparr>tick := Suc (Suc (tick w))\<rparr>))"

subsection \<open>The documents\<close>

definition markdown_content :: "string \<Rightarrow> string \<Rightarrow> string \<Rightarrow> string" where
  "markdown_content date business_idea analysis_text =
     ''# Business Idea Analysis'' @ nl @
     ''**Date**: '' @ date @ ''  '' @ nl @
     ''**Analyst**: Herman Poppleberry'' @ nl @ nl @
     ''## Original Business Idea'' @ nl @ nl @
     business_idea @ nl @ nl @
     ''## Analysis & Feedback'' @ nl @ nl @
     analysis_text @ nl @ nl @
     ''---'' @ nl @
     ''*Generated by Business Idea Refinement Agent*'' @ nl"

definition generate_markdown_file ::
  "agent \<Rightarrow> env \<Rightarrow> string \<Rightarrow> string \<Rightarrow> string \<Rightarrow> path \<Rightarrow> world \<Rightarrow> (error + path) \<times> world" where
  "generate_markdown_file self env analysis_text business_idea filename_base output_folder w =
     (let markdown_path = output_folder @ [filename_base @ ''.md''];
          date = strftime_long (now env (tick w));
          w1 = w\<lparr>tick := Suc (tick w)\<rparr>
      in bind_w (write_file markdown_path (Text (markdown_content date business_idea analysis_text)) w1)
           (\<lambda>u w2. (Inr markdown_path, w2)))"

definition generate_pdf_file ::
  "agent \<Rightarrow> env \<Rightarrow> string \<Rightarrow> string \<Rightarrow> string \<Rightarrow> path \<Rightarrow> world \<Rightarrow> (error + path) \<times> world" where
  "generate_pdf_file self env analysis_text business_idea filename_base output_folder w =
     (let pdf_path = output_folder @ [filename_base @ ''.pdf''];
          date = strftime_long (now env (tick w));
          w1 = w\<lparr>tick := Suc (Suc (tick w))\<rparr>
      in case build_pdf env (Suc (tick w)) date business_idea analysis_text of
           Inl e \<Rightarrow> (Inl e, w1)
         | Inr bytes \<Rightarrow> bind_w (write_file pdf_path (Bytes bytes) w1) (\<lambda>u w2. (Inr pdf_path, w2)))"

subsection \<open>The e-mail\<close>

text \<open>Without a key the method returns at once. With one, a failure to read a file or
  an exception of the request is caught and answered with \<open>False\<close>.\<close>

definition send_email_with_attachments ::
  "agent \<Rightarrow> env \<Rightarrow> string \<Rightarrow> path \<Rightarrow> path \<Rightarrow> path \<Rightarrow> world \<Rightarrow> bool \<times> world" where
  "send_email_with_attachments self env analysis_text audio_file_path markdown_file_path
       pdf_file_path w =
     (if text_of (resend_api_key self) = [] then (False, w)
      else
        case read_file audio_file_path w of
          Inl e \<Rightarrow> (False, w)
        | Inr audio_data \<Rightarrow>
        case read_file markdown_file_path w of
          Inl e \<Rightarrow> (False, w)
        | Inr markdown_data \<Rightarrow>
        case read_file pdf_file_path w of
          Inl e \<Rightarrow> (False, w)
        | Inr pdf_data \<Rightarrow>
            let summary = (if length analysis_text > 200 then take 200 analysis_text @ ''...''
                           else analysis_text);
                email_data =
                  \<lparr>email_from = ''Herman Poppleberry <noreply@danielrosehill.co.il>'',
                   email_to = [user_email self],
                   email_subject = ''Your Business Idea Analysis from Herman Poppleberry'',
                   email_summary = summary,
                   email_attachments =
                     [\<lparr>att_filename = path_name audio_file_path, att_content = audio_data,
                       att_content_type = ''audio/wav''\<rparr>,
                      \<lparr>att_filename = path_name markdown_file_path, att_content = markdown_data,
                       att_content_type = ''text/markdown''\<rparr>,
                      \<lparr>att_filename = path_name pdf_file_path, att_content = pdf_data,
                       att_content_type = ''application/pdf''\<rparr>]\<rparr>;
                w1 = w\<lparr>tick := Suc (tick w), sent := sent w @ [email_data]\<rparr>
            in case requests_post env (tick w) email_data of
                 Inl e \<Rightarrow> (False, w1)
               | Inr status_code \<Rightarrow> (status_code = 200, w1))"

subsection \<open>The archive\<close>

definition move_idea_to_evaluated :: "agent \<Rightarrow> path \<Rightarrow> world \<Rightarrow> (error + path) \<times> world" where
  "move_idea_to_evaluated self input_file_path w =
     (if path_exists w input_file_path \<and> contains ''pending'' (str_path input_file_path) then
        let evaluated_path = evaluated_dir self @ [path_name input_file_path]
        in bind_w (rename input_file_path evaluated_path w) (\<lambda>u w1. (Inr evaluated_path, w1))
      else (Inr input_file_path, w))"

definition get_pending_ideas :: "agent \<Rightarrow> world \<Rightarrow> string list" where
  "get_pending_ideas self w =
     (if path_exists w (pending_dir self)
      then map (\<lambda>e. path_name (fst e))
             (filter (\<lambda>e. fst e \<noteq> [] \<and> butlast (fst e) = pending_dir self
                           \<and> endswith (path_name (fst e)) ''.md'') (fs w))
      else [])"

subsection \<open>One idea\<close>

text \<open>The dictionary \<^verbatim>\<open>process_business_idea\<close> returns. It is returned only when every
  step succeeded, so each key the steps add is present; \<open>moved_to_evaluated\<close> is added
  only for an idea loaded from a file.\<close>

record results =
  timestamp :: string
  business_idea :: string
  voice_style :: string
  analysis_text :: string
  audio_file :: path
  email_sent :: bool
  markdown_file :: path
  pdf_file :: path
  text_file :: path
  moved_to_evaluated :: "path option"

definition folder_name :: "string \<Rightarrow> string \<Rightarrow> string" where
  "folder_name stamp filename_suggestion = stamp @ ''_'' @ filename_suggestion"

text \<open>Step 5 of the workflow, the optional e-mail, and the closing step, which moves an
  idea that was loaded from a file.\<close>

definition email_step ::
  "agent \<Rightarrow> env \<Rightarrow> bool \<Rightarrow> string \<Rightarrow> path \<Rightarrow> path \<Rightarrow> path \<Rightarrow> world \<Rightarrow> bool \<times> world" where
  "email_step self env send_email analysis audio md pdf w =
     (if send_email then send_email_with_attachments self env analysis audio md pdf w
      else (False, w))"

definition archive_step :: "agent \<Rightarrow> path option \<Rightarrow> world \<Rightarrow> (error + path option) \<times> world" where
  "archive_step self input_file_path w =
     (case input_file_path of
        None \<Rightarrow> (Inr None, w)
      | Some p \<Rightarrow> bind_w (move_idea_to_evaluated self p w) (\<lambda>moved w1. (Inr (Some moved), w1)))"

definition process_business_idea ::
  "agent \<Rightarrow> env \<Rightarrow> string \<Rightarrow> string \<Rightarrow> bool \<Rightarrow> path option \<Rightarrow> world \<Rightarrow> (error + results) \<times> world" where
  "process_business_idea self env idea style send_email input_file_path w =
     (let stamp0 = isoformat (now env (tick w));
          w0 = w\<lparr>tick := Suc (tick w)\<rparr>
      in
      bind_w (analyze_business_idea self env idea w0) (\<lambda>analysis w1.
        let (filename_suggestion, w2) = generate_filename_suggestion self env idea w1;
            stamp = strftime_stamp (now env (tick w2));
            w3 = w2\<lparr>tick := Suc (tick w2)\<rparr>;
            output_folder = output_dir self @ [folder_name stamp filename_suggestion]
        in
        bind_w (mkdir_exist_ok output_folder w3) (\<lambda>u w4.
        bind_w (generate_audio_feedback self env analysis style w4) (\<lambda>audio w5.
          let new_audio_path = output_folder @ [filename_suggestion @ ''_audio.wav''] in
        bind_w (rename audio new_audio_path w5) (\<lambda>u w6.
        bind_w (generate_markdown_file self env analysis idea
                  (filename_suggestion @ ''_analysis'') output_folder w6) (\<lambda>md w7.
        bind_w (generate_pdf_file self env analysis idea
                  (filename_suggestion @ ''_analysis'') output_folder w7) (\<lambda>pdf w8.
          let txt = output_folder @ [filename_suggestion @ ''_analysis.txt''] in
        bind_w (write_file txt (Text analysis) w8) (\<lambda>u w9.
          let (email_success, w10) =
                email_step self env send_email analysis new_audio_path md pdf w9
          in
        bind_w (archive_step self input_file_path w10) (\<lambda>moved w12.
          (Inr \<lparr>timestamp = stamp0, business_idea = idea, voice_style = style,
                analysis_text = analysis, audio_file = new_audio_path,
                email_sent = email_success, markdown_file = md, pdf_file = pdf,
                text_file = txt, moved_to_evaluated = moved\<rparr>, w12))))))))))"

subsection \<open>The batch\<close>

record args =
  arg_voice_style :: string
  arg_no_email :: bool

datatype outcome = Fatal | NoPending | Summary nat nat

text \<open>The loop of \<^verbatim>\<open>main\<close> with its two counters, \<open>processed\<close> and \<open>failed\<close>.\<close>

fun process_pending ::
  "agent \<Rightarrow> env \<Rightarrow> args \<Rightarrow> string list \<Rightarrow> nat \<times> nat \<Rightarrow> world \<Rightarrow> (nat \<times> nat) \<times> world" where
  "process_pending self env a [] counts w = (counts, w)"
| "process_pending self env a (idea_file # rest) counts w =
     (let pending_file = pending_dir self @ [idea_file] in
      case read_text env pending_file w of
        Inl e \<Rightarrow> process_pending self env a rest (fst counts, Suc (snd counts)) w
      | Inr file_text \<Rightarrow>
          if strip file_text = [] then process_pending self env a rest counts w
          else
            (case process_business_idea self env (strip file_text) (arg_voice_style a)
                    (\<not> arg_no_email a) (Some pending_file) w of
               (Inl e, w') \<Rightarrow> process_pending self env a rest (fst counts, Suc (snd counts)) w'
             | (Inr r, w') \<Rightarrow> process_pending self env a rest (Suc (fst counts), snd counts) w'))"

definition main :: "env \<Rightarrow> args \<Rightarrow> world \<Rightarrow> outcome \<times> world" where
  "main env a w =
     (case init_agent env w of
        (Inl e, w1) \<Rightarrow> (Fatal, w1)
      | (Inr self, w1) \<Rightarrow>
          let pending_ideas = get_pending_ideas self w1 in
          if pending_ideas = [] then (NoPending, w1)
          else case process_pending self env a pending_ideas (0, 0) w1 of
                 (counts, w2) \<Rightarrow> (Summary (fst counts) (snd counts), w2))"


section \<open>Notions for stating the claims\<close>

text \<open>The directories of a world, and the entries directly inside a directory.\<close>

definition dirs_of :: "world \<Rightarrow> path list" where
  "dirs_of w = filter (\<lambda>p. lookup w p = Some Dir) (remdups (map fst (fs w)))"

definition children :: "world \<Rightarrow> path \<Rightarrow> path list" where
  "children w d =
     filter (\<lambda>p. p \<noteq> [] \<and> butlast p = d \<and> lookup w p \<noteq> None) (remdups (map fst (fs w)))"

text \<open>The paths \<^verbatim>\<open>pending_dir.glob("*.md")\<close> finds, as \<open>get_pending_ideas\<close> selects them.\<close>

definition pending_paths :: "agent \<Rightarrow> world \<Rightarrow> path list" where
  "pending_paths self w =
     filter (\<lambda>p. p \<noteq> [] \<and> butlast p = pending_dir self \<and> endswith (path_name p) ''.md'')
       (map fst (fs w))"

text \<open>A pair of parameters that describes linear PCM and fits the header: a positive
  rate, a positive whole number of bytes per sample, and every field within its width.\<close>

definition valid_params :: "audio_params \<Rightarrow> bool" where
  "valid_params p =
     (0 < rate p \<and> rate p < 2 ^ 32 \<and> 0 < bits_per_sample p \<and> bits_per_sample p < 2 ^ 16
      \<and> 8 dvd bits_per_sample p \<and> rate p * (bits_per_sample p div 8) < 2 ^ 32)"

text \<open>A parameter the parser takes for the rate, and one whose value \<^verbatim>\<open>int\<close> refuses.\<close>

definition rate_parameter :: "string \<Rightarrow> bool" where
  "rate_parameter p = startswith (lower (strip p)) ''rate=''"

definition unparseable_rate :: "nat \<Rightarrow> string \<Rightarrow> bool" where
  "unparseable_rate lim p =
     (rate_parameter p \<and> isl (bind_err (index (split1 CHR ''='' (strip p)) 1) (py_int lim)))"

text \<open>The path \<^verbatim>\<open>generate_audio_feedback\<close> computes for the audio file with the extension
  \<open>ext\<close>, when started in the world \<open>w\<close>: its first interaction is the clock reading
  that stamps the name.\<close>

definition audio_target :: "agent \<Rightarrow> env \<Rightarrow> world \<Rightarrow> string \<Rightarrow> path" where
  "audio_target self env w ext =
     output_dir self @
       [replace ''.wav'' [] (''business_analysis_'' @ strftime_stamp (now env (tick w)) @ ''.wav'')
          @ ext]"

text \<open>The directories \<^verbatim>\<open>__init__\<close> assigns to every agent.\<close>

definition standard_dirs :: "agent \<Rightarrow> bool" where
  "standard_dirs self =
     (output_dir self = [''agent'', ''feedback'']
      \<and> pending_dir self = [''agent'', ''user-ideas'', ''pending'']
      \<and> evaluated_dir self = [''agent'', ''user-ideas'', ''evaluated''])"

text \<open>The ranges Python keeps the fields of a \<^verbatim>\<open>datetime\<close> in, as far as the formats
  depend on them; and two times that agree up to the second.\<close>

definition valid_datetime :: "datetime \<Rightarrow> bool" where
  "valid_datetime t =
     (year t < 10000 \<and> month t < 100 \<and> day t < 100 \<and> hour t < 100 \<and> minute t < 100
      \<and> second t < 100)"

definition same_second :: "datetime \<Rightarrow> datetime \<Rightarrow> bool" where
  "same_second t u =
     (year t = year u \<and> month t = month u \<and> day t = day u \<and> hour t = hour u
      \<and> minute t = minute u \<and> second t = second u)"

text \<open>The folder one run of \<^verbatim>\<open>process_business_idea\<close> writes into, started in the world
  \<open>w\<close>: the run reads the clock, asks for the critique and asks for the filename
  suggestion, and the fourth interaction is the clock reading that stamps the folder.\<close>

definition idea_slug :: "agent \<Rightarrow> env \<Rightarrow> string \<Rightarrow> world \<Rightarrow> string" where
  "idea_slug self env idea w =
     fst (generate_filename_suggestion self env idea (w\<lparr>tick := Suc (Suc (tick w))\<rparr>))"

definition idea_folder :: "agent \<Rightarrow> env \<Rightarrow> string \<Rightarrow> world \<Rightarrow> path" where
  "idea_folder self env idea w =
     output_dir self @
       [folder_name (strftime_stamp (now env (Suc (Suc (Suc (tick w))))))
          (idea_slug self env idea w)]"

section \<open>A concrete world\<close>

text \<open>A small instance for evaluating the model: the language-model key is set and the
  e-mail key is not, the clock stands within one second (only the microsecond moves), the
  language model answers every request with the same text, the speech stream delivers a
  chunk without audio and then two chunks of raw PCM, and no content type has a known
  extension.\<close>

definition audio_chunk :: "byte list \<Rightarrow> string \<Rightarrow> chunk" where
  "audio_chunk bytes mime =
     \<lparr>candidates = Some [\<lparr>content = Some \<lparr>parts = Some [\<lparr>inline_data =
        Some \<lparr>data = Some bytes, mime_type = mime\<rparr>\<rparr>]\<rparr>\<rparr>]\<rparr>"

definition empty_chunk :: chunk where
  "empty_chunk = \<lparr>candidates = None\<rparr>"

definition example_env :: env where
  "example_env =
     \<lparr>getenv = (\<lambda>k. if k = ''GEMINI_API_KEY'' then Some ''key'' else None),
      int_max_str_digits = 4300,
      now = (\<lambda>n. \<lparr>year = 2025, month = 1, day = 2, hour = 3, minute = 4, second = 5,
                   microsecond = n\<rparr>),
      generate_content = (\<lambda>n prompt. Inr (Some ''Great Idea'')),
      generate_content_stream = (\<lambda>n prompt.
         [Inr empty_chunk, Inr (audio_chunk [1, 2] ''audio/L16;rate=24000''),
          Inr (audio_chunk [3, 4] ''audio/L16;rate=24000'')]),
      guess_extension = (\<lambda>m. None),
      build_pdf = (\<lambda>n date idea analysis. Inr [37, 80, 68, 70]),
      requests_post = (\<lambda>n e. Inr 200),
      decode_text = (\<lambda>b. Inl ValueError)\<rparr>"

definition example_world :: world where
  "example_world =
     \<lparr>fs = [([''agent''], Dir), ([''agent'', ''feedback''], Dir),
            ([''agent'', ''user-ideas''], Dir),
            ([''agent'', ''user-ideas'', ''pending''], Dir),
            ([''agent'', ''user-ideas'', ''evaluated''], Dir),
            ([''agent'', ''user-ideas'', ''pending'', ''ice.md''], File (Text '' Sell ice ''))],
      tick = 0, stream_reads = 0, sent = []\<rparr>"

definition example_args :: args where
  "example_args = \<lparr>arg_voice_style = ''upbeat'', arg_no_email = False\<rparr>"


text \<open>The same world with a second idea waiting, and with the output folder of the
  first idea already there from an earlier run.\<close>

definition two_ideas_world :: world where
  "two_ideas_world =
     example_world\<lparr>fs := fs example_world @
       [([''agent'', ''user-ideas'', ''pending'', ''sand.md''], File (Text ''Sell sand''))]\<rparr>"

definition stale_world :: world where
  "stale_world =
     example_world\<lparr>fs := fs example_world @
       [([''agent'', ''feedback'', ''20250102_030405_great-idea''], Dir),
        ([''agent'', ''feedback'', ''20250102_030405_great-idea'', ''notes.txt''],
         File (Text ''old''))]\<rparr>"

text \<open>The same collaborators when every content type has the extension \<^verbatim>\<open>.mp3\<close>; and
  a descriptor whose rate is written with 700 leading zeros.\<close>

definition mp3_env :: env where
  "mp3_env = example_env\<lparr>guess_extension := (\<lambda>m. Some ''.mp3'')\<rparr>"

definition padded_rate :: string where
  "padded_rate = ''rate='' @ replicate 700 CHR ''0'' @ ''8000''"


section \<open>Verified properties\<close>

subsection \<open>Errors and byte encodings\<close>

lemma bind_err_simps [simp]: "bind_err (Inl e) f = Inl e" "bind_err (Inr x) f = f x"
  by (simp_all add: bind_err_def)

lemma bind_err_Inr: "bind_err m f = Inr y \<longleftrightarrow> (\<exists>x. m = Inr x \<and> f x = Inr y)"
  by (cases m) simp_all

lemma le_bytes_Suc: "le_bytes (Suc k) v = word_of_int v # le_bytes k (v div 256)"
proof -
  have "[0..<Suc k] = 0 # map Suc [0..<k]"
    by (simp add: upt_conv_Cons map_Suc_upt del: upt_Suc)
  then show ?thesis
    by (simp add: le_bytes_def comp_def zdiv_zmult2_eq del: upt_Suc)
qed

lemma length_le_bytes [simp]: "length (le_bytes k v) = k"
  by (simp add: le_bytes_def)

lemma le_val_le_bytes_mod: "le_val (le_bytes k v) = v mod 256 ^ k"
proof (induction k arbitrary: v)
  case 0
  show ?case by (simp add: le_bytes_def le_val_def)
next
  case (Suc k)
  have "le_val (le_bytes (Suc k) v)
          = uint (word_of_int v :: byte) + 256 * le_val (le_bytes k (v div 256))"
    by (simp add: le_bytes_Suc le_val_def)
  also have "\<dots> = v mod 256 + 256 * ((v div 256) mod 256 ^ k)"
    by (simp add: Suc.IH uint_word_of_int take_bit_eq_mod)
  also have "\<dots> = v mod 256 ^ Suc k"
    by (simp add: zmod_zmult2_eq)
  finally show ?case .
qed

lemma le_val_le_bytes: "0 \<le> v \<Longrightarrow> v < 256 ^ k \<Longrightarrow> le_val (le_bytes k v) = v"
  by (simp add: le_val_le_bytes_mod)

lemma pack_uint_Inr: "pack_uint k v = Inr bs \<longleftrightarrow> 0 \<le> v \<and> v < 256 ^ k \<and> bs = le_bytes k v"
  by (auto simp: pack_uint_def)

lemma length_spec_wav_header: "length (spec_wav_header p n) = 44"
  by (simp add: spec_wav_header_def ascii_def)

text \<open>The encoder returns exactly when every integer fits the unsigned field it is packed
  into, and then it returns the table's header followed by the payload.\<close>

lemma convert_to_wav_Inr:
  "convert_to_wav self lim payload desc = Inr out \<longleftrightarrow>
     (\<exists>p. parse_audio_mime_type self lim desc = Inr p
        \<and> 0 \<le> rate p \<and> rate p < 2 ^ 32 \<and> 0 \<le> bits_per_sample p \<and> bits_per_sample p < 2 ^ 16
        \<and> 0 \<le> rate p * (bits_per_sample p div 8) \<and> rate p * (bits_per_sample p div 8) < 2 ^ 32
        \<and> 36 + int (length payload) < 2 ^ 32
        \<and> out = spec_wav_header p (length payload) @ payload)"
proof -
  have div8: "0 \<le> b \<Longrightarrow> b < 65536 \<Longrightarrow> 0 \<le> b div 8 \<and> b div 8 < 65536" for b :: int
    by arith
  show ?thesis
    by (auto simp: convert_to_wav_def bind_err_Inr pack_uint_Inr ascii_def spec_wav_header_def
          Let_def dest: div8)
qed

subsection \<open>The descriptor parser\<close>

lemma py_int_error: "py_int lim s = Inl e \<Longrightarrow> e = ValueError"
  unfolding py_int_def Let_def by (simp split: if_split_asm)

lemma index_error: "index xs i = Inl e \<Longrightarrow> e = IndexError"
  by (auto simp: index_def split: if_splits)

lemma index_then_int_caught: "bind_err (index xs i) (py_int lim) = Inl e \<Longrightarrow> caught e"
  by (cases "index xs i") (auto simp: caught_def dest: index_error py_int_error)

lemma parse_param_total: "\<exists>acc'. parse_param lim p acc = Inr acc'"
  by (auto simp: parse_param_def Let_def split: sum.splits dest: index_then_int_caught)

lemma parse_loop_total: "\<exists>acc'. parse_loop lim ps acc = Inr acc'"
proof (induction ps arbitrary: acc)
  case Nil
  show ?case by simp
next
  case (Cons p ps)
  obtain acc1 where "parse_param lim p acc = Inr acc1"
    using parse_param_total by blast
  then show ?case using Cons.IH [of acc1] by simp
qed

lemma parse_loop_append:
  "parse_loop lim (ps @ qs) acc = bind_err (parse_loop lim ps acc) (parse_loop lim qs)"
proof (induction ps arbitrary: acc)
  case Nil
  show ?case by simp
next
  case (Cons p ps)
  show ?case by (cases "parse_param lim p acc") (simp_all add: Cons.IH)
qed

lemma parse_param_unrecognised: "\<not> recognised p \<Longrightarrow> parse_param lim p acc = Inr acc"
  by (simp add: parse_param_def recognised_def Let_def)

lemma parse_loop_unrecognised:
  "\<forall>p \<in> set ps. \<not> recognised p \<Longrightarrow> parse_loop lim ps acc = Inr acc"
  by (induction ps) (simp_all add: parse_param_unrecognised)

lemma split_nonempty [simp]: "split sep s \<noteq> []"
  by (induction s) (auto split: list.splits)

lemma split_no_sep: "sep \<notin> set s \<Longrightarrow> split sep s = [s]"
  by (induction s) auto

lemma split_append_sep: "split sep (xs @ sep # ys) = split sep xs @ split sep ys"
  by (induction xs) (auto split: list.splits)

lemma strip_id: "s \<noteq> [] \<Longrightarrow> \<not> isspace (hd s) \<Longrightarrow> \<not> isspace (last s) \<Longrightarrow> strip s = s"
proof -
  assume a: "s \<noteq> []" "\<not> isspace (hd s)" "\<not> isspace (last s)"
  then have 1: "dropWhile isspace s = s" by (cases s) auto
  from a have "rev s \<noteq> []" "\<not> isspace (hd (rev s))" by (simp_all add: hd_rev)
  then have "dropWhile isspace (rev s) = rev s" by (cases "rev s") auto
  with 1 show ?thesis by (simp add: strip_def)
qed

lemma digit_facts:
  "is_digit c \<Longrightarrow> \<not> isspace c \<and> \<not> int_space c \<and> c \<noteq> CHR ''_'' \<and> c \<noteq> CHR ''+'' \<and> c \<noteq> CHR ''-''
     \<and> c \<noteq> CHR '';'' \<and> c \<noteq> CHR ''='' \<and> numeral_char c"
  by (auto simp: is_digit_def isspace_def int_space_def numeral_char_def code_def)

lemma no_double_underscore: "CHR ''_'' \<notin> set s \<Longrightarrow> \<not> double_underscore s"
  by (induction s rule: double_underscore.induct) auto

lemma digits_numeral_ok:
  assumes "ds \<noteq> []" "\<forall>c \<in> set ds. is_digit c"
  shows "numeral_ok ds"
proof -
  from assms have "is_digit (hd ds)" "is_digit (last ds)" by auto
  moreover have "\<not> double_underscore ds"
    using assms(2) by (intro no_double_underscore) (auto dest: digit_facts)
  ultimately show ?thesis using assms(1) by (auto simp: numeral_ok_def dest: digit_facts)
qed

lemma py_int_from_sign:
  assumes "ds \<noteq> []" "\<forall>c \<in> set ds. is_digit c" "skip_sign s = ds" "s \<noteq> []" "\<not> int_space (hd s)"
  shows "py_int lim s =
           (if too_long lim ds then Inl ValueError
            else Inr ((if negative s then - 1 else 1) * decimal ds))"
proof -
  have 1: "dropWhile int_space s = s"
    using assms(4,5) by (cases s) auto
  have 2: "takeWhile numeral_char ds = ds" "dropWhile numeral_char ds = []"
    using assms(2) by (auto dest: digit_facts)
  have 3: "filter is_digit ds = ds" using assms(2) by simp
  show ?thesis
    unfolding py_int_def Let_def 1 assms(3) 2 3
    using digits_numeral_ok [OF assms(1,2)] by simp
qed

text \<open>A numeral: an optional sign and then digits.\<close>

lemma py_int_numeral:
  assumes "ds \<noteq> []" "\<forall>c \<in> set ds. is_digit c" "sg = [] \<or> sg = ''+'' \<or> sg = ''-''"
  shows "py_int lim (sg @ ds) =
           (if too_long lim ds then Inl ValueError
            else Inr ((if sg = ''-'' then - 1 else 1) * decimal ds))"
proof (cases "sg = []")
  case True
  obtain c cs where ds: "ds = c # cs" using assms(1) by (cases ds) auto
  with assms(2) have c: "is_digit c" by simp
  have "skip_sign ds = ds" "\<not> negative ds" "\<not> int_space (hd ds)"
    using c by (auto simp: ds skip_sign_def negative_def dest: digit_facts)
  then show ?thesis using py_int_from_sign [OF assms(1,2), of ds lim] assms(1) True by simp
next
  case False
  then obtain c where sg: "sg = [c]" "c = CHR ''+'' \<or> c = CHR ''-''" using assms(3) by auto
  have "skip_sign (c # ds) = ds" "negative (c # ds) = (c = CHR ''-'')"
       "\<not> int_space (hd (c # ds))"
    using sg(2) by (auto simp: skip_sign_def negative_def int_space_def code_def)
  then show ?thesis using py_int_from_sign [OF assms(1,2), of "c # ds" lim] sg by simp
qed

text \<open>What one parameter \<^verbatim>\<open>rate=...\<close> or \<^verbatim>\<open>audio/L...\<close> does to the parameters read
  so far.\<close>

lemma parse_param_rate:
  assumes "strip p0 = p" "startswith (lower p) ''rate=''" "index (split1 CHR ''='' p) 1 = Inr v"
  shows "parse_param lim p0 acc =
           (case py_int lim v of Inr n \<Rightarrow> Inr (acc\<lparr>rate := n\<rparr>) | Inl e \<Rightarrow> Inr acc)"
proof (cases "py_int lim v")
  case (Inl e)
  then have "caught e" by (auto simp: caught_def dest: py_int_error)
  then show ?thesis using assms Inl by (simp add: parse_param_def)
next
  case (Inr n)
  then show ?thesis using assms by (simp add: parse_param_def)
qed

lemma parse_param_rate_numeral:
  assumes "ds \<noteq> []" "\<forall>c \<in> set ds. is_digit c" "sg = [] \<or> sg = ''+'' \<or> sg = ''-''"
  shows "parse_param lim (''rate='' @ sg @ ds) acc =
           Inr (if too_long lim ds then acc
                else acc\<lparr>rate := (if sg = ''-'' then - 1 else 1) * decimal ds\<rparr>)"
proof -
  let ?s = "''rate='' @ sg @ ds"
  have "is_digit (last ds)" using assms(1,2) by simp
  then have "\<not> isspace (last ds)" using digit_facts by blast
  moreover have "last ?s = last ds" using assms(1) by simp
  ultimately have "\<not> isspace (last ?s)" by simp
  moreover have "\<not> isspace (hd ?s)" by (simp add: isspace_def code_def)
  ultimately have st: "strip ?s = ?s" by (intro strip_id) simp_all
  have sw: "startswith (lower ?s) ''rate=''"
    by (simp add: startswith_def lower_def lower_char_def code_def)
  have sp: "index (split1 CHR ''='' ?s) 1 = Inr (sg @ ds)"
    by (simp add: split1_def index_def)
  show ?thesis
    unfolding parse_param_rate [OF st sw sp] py_int_numeral [OF assms] by simp
qed

lemma split_rate_numeral:
  assumes "\<forall>c \<in> set ds. is_digit c" "sg = [] \<or> sg = ''+'' \<or> sg = ''-''"
  shows "split CHR '';'' (''rate='' @ sg @ ds) = [''rate='' @ sg @ ds]"
proof -
  have "CHR '';'' \<notin> set ds" using assms(1) digit_facts by blast
  moreover have "CHR '';'' \<notin> set sg" using assms(2) by auto
  ultimately show ?thesis by (intro split_no_sep) simp
qed

text \<open>The descriptor whose last parameter is \<^verbatim>\<open>rate=<numeral>\<close>.\<close>

lemma parse_last_rate_numeral:
  assumes "ds \<noteq> []" "\<forall>c \<in> set ds. is_digit c" "sg = [] \<or> sg = ''+'' \<or> sg = ''-''"
    and "pre = [] \<or> last pre = CHR '';''"
  shows "\<exists>acc. parse_loop lim (butlast (split CHR '';'' pre)) \<lparr>bits_per_sample = 16, rate = 24000\<rparr>
                 = Inr acc
           \<and> parse_audio_mime_type self lim (pre @ ''rate='' @ sg @ ds) =
               Inr (if too_long lim ds then acc
                    else acc\<lparr>rate := (if sg = ''-'' then - 1 else 1) * decimal ds\<rparr>)"
proof -
  let ?r = "''rate='' @ sg @ ds"
  let ?init = "\<lparr>bits_per_sample = 16, rate = 24000\<rparr>"
  obtain acc where acc: "parse_loop lim (butlast (split CHR '';'' pre)) ?init = Inr acc"
    using parse_loop_total by blast
  have sp: "split CHR '';'' (pre @ ?r) = butlast (split CHR '';'' pre) @ [?r]"
  proof (cases "pre = []")
    case True
    then show ?thesis using split_rate_numeral [OF assms(2,3)] by simp
  next
    case False
    then obtain q where q: "pre = q @ [CHR '';'']"
      using assms(4) by (metis append_butlast_last_id)
    have "split CHR '';'' pre = split CHR '';'' q @ [[]]"
      using split_append_sep [of "CHR '';''" q "[]"] by (simp add: q)
    moreover have "split CHR '';'' (pre @ ?r) = split CHR '';'' q @ [?r]"
      using split_append_sep [of "CHR '';''" q ?r] split_rate_numeral [OF assms(2,3)]
      by (simp add: q)
    ultimately show ?thesis by simp
  qed
  have "parse_audio_mime_type self lim (pre @ ?r) = parse_param lim ?r acc"
    unfolding parse_audio_mime_type_def sp parse_loop_append acc
    by (cases "parse_param lim ?r acc") simp_all
  with acc show ?thesis
    using parse_param_rate_numeral [OF assms(1,2,3), of lim acc] by auto
qed

lemma decimal_snoc: "decimal (ds @ [c]) = 10 * decimal ds + digit_val c"
  by (simp add: decimal_def)

lemma decimal_ones: "int n \<le> decimal (replicate n CHR ''1'')"
proof (induction n)
  case 0
  show ?case by (simp add: decimal_def)
next
  case (Suc n)
  have "replicate (Suc n) CHR ''1'' = replicate n CHR ''1'' @ [CHR ''1'']"
    by (simp add: replicate_append_same)
  then have "decimal (replicate (Suc n) CHR ''1'') = 10 * decimal (replicate n CHR ''1'') + 1"
    by (simp only: decimal_snoc) (simp add: digit_val_def code_def)
  with Suc show ?case by simp
qed

lemma le_bytes_0: "le_bytes 0 v = []"
  by (simp add: le_bytes_def)

lemma le_bytes_2: "le_bytes 2 v = [word_of_int v, word_of_int (v div 256)]"
  by (simp add: eval_nat_numeral le_bytes_Suc le_bytes_0)

lemma le_bytes_4:
  "le_bytes 4 v = [word_of_int v, word_of_int (v div 256), word_of_int (v div 256 div 256),
                   word_of_int (v div 256 div 256 div 256)]"
  by (simp add: eval_nat_numeral le_bytes_Suc le_bytes_0)

lemmas string_eval =
  strip_def isspace_def code_def lower_def lower_char_def startswith_def split1_def index_def

lemmas int_eval =
  py_int_def int_space_def numeral_char_def is_digit_def decimal_def digit_val_def
  negative_def skip_sign_def numeral_ok_def too_long_def

lemmas parse_eval = parse_audio_mime_type_def parse_param_def recognised_def caught_def

lemmas wav_eval =
  convert_to_wav_def pack_uint_def le_bytes_2 le_bytes_4 ascii_def le_val_def field_at_def

subsection \<open>The claims about the WAV encoder and the descriptor parser\<close>

text \<open>
  C1 (as amended). The encoder packs its integers with \<^verbatim>\<open>struct.pack\<close>, which raises for
  a value that does not fit its unsigned field. So the encoder returns exactly when the
  parsed rate, the byte rate and \<open>36 + n\<close> fit 32 bits and the parsed bits per sample fit
  16 bits, and whenever it returns for a payload of \<open>n\<close> bytes, its output is 44 header
  bytes followed by the payload unchanged, with ChunkSize \<open>36 + n\<close> at offset 4 and
  Subchunk2Size \<open>n\<close> at offset 40, both little-endian.
\<close>

theorem convert_to_wav_layout:
  "(convert_to_wav self lim payload desc = Inr out \<longrightarrow>
      length out = 44 + length payload
    \<and> drop 44 out = payload
    \<and> le_val (field_at 4 4 out) = 36 + int (length payload)
    \<and> le_val (field_at 40 4 out) = int (length payload))
   \<and> ((\<exists>out'. convert_to_wav self lim payload desc = Inr out') \<longleftrightarrow>
        (\<exists>p. parse_audio_mime_type self lim desc = Inr p
           \<and> 0 \<le> rate p \<and> rate p < 2 ^ 32
           \<and> 0 \<le> bits_per_sample p \<and> bits_per_sample p < 2 ^ 16
           \<and> 0 \<le> rate p * (bits_per_sample p div 8) \<and> rate p * (bits_per_sample p div 8) < 2 ^ 32
           \<and> 36 + int (length payload) < 2 ^ 32))"
proof (intro conjI impI)
  assume "convert_to_wav self lim payload desc = Inr out"
  then obtain p where fit: "36 + int (length payload) < 2 ^ 32"
    and out: "out = spec_wav_header p (length payload) @ payload"
    unfolding convert_to_wav_Inr by blast
  show "length out = 44 + length payload"
    by (simp add: out length_spec_wav_header)
  show "drop 44 out = payload"
    by (simp add: out length_spec_wav_header)
  show "le_val (field_at 4 4 out) = 36 + int (length payload)"
    using fit by (simp add: out spec_wav_header_def field_at_def ascii_def le_val_le_bytes)
  show "le_val (field_at 40 4 out) = int (length payload)"
    using fit by (simp add: out spec_wav_header_def field_at_def ascii_def le_val_le_bytes)
next
  show "(\<exists>out'. convert_to_wav self lim payload desc = Inr out') \<longleftrightarrow>
        (\<exists>p. parse_audio_mime_type self lim desc = Inr p
           \<and> 0 \<le> rate p \<and> rate p < 2 ^ 32
           \<and> 0 \<le> bits_per_sample p \<and> bits_per_sample p < 2 ^ 16
           \<and> 0 \<le> rate p * (bits_per_sample p div 8) \<and> rate p * (bits_per_sample p div 8) < 2 ^ 32
           \<and> 36 + int (length payload) < 2 ^ 32)"
    unfolding convert_to_wav_Inr by blast
qed

theorem convert_to_wav_layout_witness:
  "convert_to_wav example_agent 4300 [1, 2, 3] ''audio/L16;rate=24000'' =
     Inr [82, 73, 70, 70, 39, 0, 0, 0, 87, 65, 86, 69, 102, 109, 116, 32, 16, 0, 0, 0, 1, 0,
          1, 0, 192, 93, 0, 0, 128, 187, 0, 0, 2, 0, 16, 0, 100, 97, 116, 97, 3, 0, 0, 0,
          1, 2, 3]
   \<and> le_val (field_at 4 4
        [82, 73, 70, 70, 39, 0, 0, 0, 87, 65, 86, 69, 102, 109, 116, 32, 16, 0, 0, 0, 1, 0,
         1, 0, 192, 93, 0, 0, 128, 187, 0, 0, 2, 0, 16, 0, 100, 97, 116, 97, 3, 0, 0, 0,
         1, 2, 3]) = 39
   \<and> le_val (field_at 40 4
        [82, 73, 70, 70, 39, 0, 0, 0, 87, 65, 86, 69, 102, 109, 116, 32, 16, 0, 0, 0, 1, 0,
         1, 0, 192, 93, 0, 0, 128, 187, 0, 0, 2, 0, 16, 0, 100, 97, 116, 97, 3, 0, 0, 0,
         1, 2, 3]) = 3"
proof -
  have h: "convert_to_wav example_agent 4300 [1, 2, 3] ''audio/L16;rate=24000'' =
     Inr [82, 73, 70, 70, 39, 0, 0, 0, 87, 65, 86, 69, 102, 109, 116, 32, 16, 0, 0, 0, 1, 0,
          1, 0, 192, 93, 0, 0, 128, 187, 0, 0, 2, 0, 16, 0, 100, 97, 116, 97, 3, 0, 0, 0,
          1, 2, 3]"
    by (simp add: wav_eval parse_eval string_eval int_eval)
  show ?thesis
    using convert_to_wav_layout [of example_agent 4300 "[1, 2, 3]" "''audio/L16;rate=24000''"]
      h by simp
qed

text \<open>The claim as written covers every descriptor; for \<^verbatim>\<open>rate=-5\<close> the encoder has no
  output at all, since \<^verbatim>\<open>struct.pack\<close> refuses the negative sample rate.\<close>

theorem convert_to_wav_negative_rate_raises:
  "convert_to_wav example_agent 4300 [] ''rate=-5'' = Inl StructError"
  by (simp add: wav_eval parse_eval string_eval int_eval)

subsection \<open>Parameters that leave the rate alone\<close>

lemma parse_param_not_rate:
  assumes "\<not> rate_parameter q"
  shows "\<exists>acc'. parse_param lim q acc = Inr acc' \<and> rate acc' = rate acc"
proof (cases "startswith (strip q) ''audio/L''")
  case False
  with assms show ?thesis by (simp add: parse_param_def rate_parameter_def)
next
  case True
  show ?thesis
  proof (cases "bind_err (index (split1 CHR ''L'' (strip q)) 1) (py_int lim)")
    case (Inl e)
    then have "caught e" by (rule index_then_int_caught)
    with assms True Inl show ?thesis by (simp add: parse_param_def rate_parameter_def)
  next
    case (Inr v)
    with assms True show ?thesis by (simp add: parse_param_def rate_parameter_def)
  qed
qed

lemma parse_param_unparseable:
  assumes "unparseable_rate lim p"
  shows "parse_param lim p acc = Inr acc"
proof -
  from assms obtain e where "bind_err (index (split1 CHR ''='' (strip p)) 1) (py_int lim) = Inl e"
    by (cases "bind_err (index (split1 CHR ''='' (strip p)) 1) (py_int lim)")
       (simp_all add: unparseable_rate_def)
  moreover from this have "caught e" by (rule index_then_int_caught)
  moreover from assms have "startswith (lower (strip p)) ''rate=''"
    by (simp add: unparseable_rate_def rate_parameter_def)
  ultimately show ?thesis by (simp add: parse_param_def)
qed

lemma parse_loop_rates_unparseable:
  "\<forall>p \<in> set ps. rate_parameter p \<longrightarrow> unparseable_rate lim p \<Longrightarrow>
   \<exists>acc'. parse_loop lim ps acc = Inr acc' \<and> rate acc' = rate acc"
proof (induction ps arbitrary: acc)
  case Nil
  show ?case by simp
next
  case (Cons p ps)
  have "\<exists>acc1. parse_param lim p acc = Inr acc1 \<and> rate acc1 = rate acc"
  proof (cases "rate_parameter p")
    case True
    with Cons.prems have "unparseable_rate lim p" by simp
    then show ?thesis by (simp add: parse_param_unparseable)
  next
    case False
    then show ?thesis by (rule parse_param_not_rate)
  qed
  then obtain acc1 where 1: "parse_param lim p acc = Inr acc1" "rate acc1 = rate acc" by blast
  from Cons.prems have "\<forall>q \<in> set ps. rate_parameter q \<longrightarrow> unparseable_rate lim q" by simp
  from Cons.IH [OF this, of acc1] 1 show ?case by simp
qed

text \<open>A descriptor with a parameter \<^verbatim>\<open>rate=<numeral>\<close> after which no rate parameter
  parses.\<close>

lemma parse_rate_numeral_general:
  assumes sp: "split CHR '';'' d = ps @ (''rate='' @ sg @ ds) # qs"
    and ds: "ds \<noteq> []" "\<forall>c \<in> set ds. is_digit c" and sg: "sg = [] \<or> sg = ''+'' \<or> sg = ''-''"
    and qs: "\<forall>q \<in> set qs. rate_parameter q \<longrightarrow> unparseable_rate lim q"
  shows "\<exists>b acc. parse_loop lim ps \<lparr>bits_per_sample = 16, rate = 24000\<rparr> = Inr acc
           \<and> parse_audio_mime_type self lim d =
               Inr \<lparr>bits_per_sample = b,
                    rate = (if too_long lim ds then rate acc
                            else (if sg = ''-'' then - 1 else 1) * decimal ds)\<rparr>"
proof -
  let ?init = "\<lparr>bits_per_sample = 16, rate = 24000\<rparr>"
  let ?v = "(if sg = ''-'' then - 1 else 1) * decimal ds"
  obtain acc where acc: "parse_loop lim ps ?init = Inr acc"
    using parse_loop_total by blast
  let ?acc1 = "if too_long lim ds then acc else acc\<lparr>rate := ?v\<rparr>"
  have p1: "parse_param lim (''rate='' @ sg @ ds) acc = Inr ?acc1"
    by (rule parse_param_rate_numeral [OF ds sg])
  obtain acc2 where acc2: "parse_loop lim qs ?acc1 = Inr acc2" "rate acc2 = rate ?acc1"
    using parse_loop_rates_unparseable [OF qs, of ?acc1] by blast
  have "parse_audio_mime_type self lim d = Inr acc2"
    unfolding parse_audio_mime_type_def sp parse_loop_append acc
    using p1 acc2(1) by simp
  moreover have "acc2 = \<lparr>bits_per_sample = bits_per_sample acc2,
      rate = (if too_long lim ds then rate acc else ?v)\<rparr>"
    using acc2(2) by simp
  ultimately have "parse_audio_mime_type self lim d =
      Inr \<lparr>bits_per_sample = bits_per_sample acc2,
           rate = (if too_long lim ds then rate acc else ?v)\<rparr>"
    by simp
  with acc show ?thesis by blast
qed

subsection \<open>The digit limit and short descriptors\<close>

lemma length_skip_sign: "length (skip_sign s) \<le> length s"
  by (cases s) (simp_all add: skip_sign_def)

lemma length_strip: "length (strip s) \<le> length s"
proof -
  have "length (strip s) \<le> length (dropWhile isspace s)"
    unfolding strip_def using length_dropWhile_le [of isspace "rev (dropWhile isspace s)"] by simp
  also have "\<dots> \<le> length s" by (rule length_dropWhile_le)
  finally show ?thesis .
qed

lemma py_int_short:
  assumes "length s \<le> 640"
  shows "py_int lim s = py_int lim' s"
proof -
  let ?b = "takeWhile numeral_char (skip_sign (dropWhile int_space s))"
  have "length (filter is_digit ?b) \<le> length ?b" by (rule length_filter_le)
  also have "\<dots> \<le> length (skip_sign (dropWhile int_space s))" by (rule length_takeWhile_le)
  also have "\<dots> \<le> length (dropWhile int_space s)" by (rule length_skip_sign)
  also have "\<dots> \<le> length s" by (rule length_dropWhile_le)
  finally have "length (filter is_digit ?b) \<le> 640" using assms by simp
  then have "\<not> too_long lim (filter is_digit ?b)" "\<not> too_long lim' (filter is_digit ?b)"
    by (simp_all add: too_long_def)
  then show ?thesis unfolding py_int_def Let_def by simp
qed

lemma split1_value_short: "index (split1 c s) 1 = Inr v \<Longrightarrow> length v \<le> length s"
proof -
  assume a: "index (split1 c s) 1 = Inr v"
  then have v: "v = tl (dropWhile (\<lambda>x. x \<noteq> c) s)"
    by (simp add: split1_def index_def split: if_splits)
  have "length (tl (dropWhile (\<lambda>x. x \<noteq> c) s)) \<le> length (dropWhile (\<lambda>x. x \<noteq> c) s)" by simp
  also have "\<dots> \<le> length s" by (rule length_dropWhile_le)
  finally show ?thesis by (simp add: v)
qed

lemma value_int_short:
  assumes "length p \<le> 640"
  shows "bind_err (index (split1 c (strip p)) 1) (py_int lim)
         = bind_err (index (split1 c (strip p)) 1) (py_int lim')"
proof (cases "index (split1 c (strip p)) 1")
  case (Inl e)
  then show ?thesis by simp
next
  case (Inr v)
  then have "length v \<le> length (strip p)" by (rule split1_value_short)
  also have "\<dots> \<le> length p" by (rule length_strip)
  finally have "length v \<le> 640" using assms by simp
  then show ?thesis using Inr by (simp add: py_int_short [of v lim lim'])
qed

lemma parse_param_short:
  assumes "length p \<le> 640"
  shows "parse_param lim p acc = parse_param lim' p acc"
  unfolding parse_param_def Let_def
  by (simp only: value_int_short [OF assms, of _ lim lim'])

lemma split_part_length: "p \<in> set (split sep s) \<Longrightarrow> length p \<le> length s"
proof (induction s arbitrary: p)
  case Nil
  then show ?case by simp
next
  case (Cons c s)
  show ?case
  proof (cases "c = sep")
    case True
    with Cons.prems have "p = [] \<or> p \<in> set (split sep s)" by simp
    then show ?thesis using Cons.IH [of p] by auto
  next
    case False
    obtain q qs where q: "split sep s = q # qs" using split_nonempty [of sep s] by (cases "split sep s") auto
    with False Cons.prems have "p = c # q \<or> p \<in> set qs" by simp
    moreover have "length q \<le> length s" using Cons.IH [of q] q by simp
    moreover have "p \<in> set qs \<Longrightarrow> length p \<le> length s" using Cons.IH [of p] q by simp
    ultimately show ?thesis by auto
  qed
qed

lemma parse_loop_short:
  "\<forall>p \<in> set ps. length p \<le> 640 \<Longrightarrow> parse_loop lim ps acc = parse_loop lim' ps acc"
proof (induction ps arbitrary: acc)
  case Nil
  show ?case by simp
next
  case (Cons p ps)
  then have p: "parse_param lim p acc = parse_param lim' p acc" by (simp add: parse_param_short)
  show ?case
  proof (cases "parse_param lim' p acc")
    case (Inl e)
    with p show ?thesis by simp
  next
    case (Inr acc1)
    with p Cons show ?thesis by simp
  qed
qed

lemma parse_short:
  assumes "length d \<le> 640"
  shows "parse_audio_mime_type self lim d = parse_audio_mime_type self' lim' d"
proof -
  have "\<forall>p \<in> set (split CHR '';'' d). length p \<le> 640"
    using split_part_length [of _ "CHR '';''" d] assms by fastforce
  then show ?thesis unfolding parse_audio_mime_type_def by (rule parse_loop_short)
qed

lemma decimal_zeros: "decimal (replicate n CHR ''0'' @ s) = decimal s"
proof -
  have "foldl (\<lambda>a c. 10 * a + digit_val c) 0 (replicate n CHR ''0'') = 0"
    by (induction n) (simp_all add: digit_val_def code_def)
  then show ?thesis by (simp add: decimal_def)
qed

lemma parse_padded_rate:
  "parse_audio_mime_type self lim padded_rate =
     Inr \<lparr>bits_per_sample = 16, rate = (if 0 < lim \<and> lim < 704 then 24000 else 8000)\<rparr>"
proof -
  let ?ds = "replicate 700 CHR ''0'' @ ''8000''"
  have ds: "?ds \<noteq> []" "\<forall>c \<in> set ?ds. is_digit c"
    by (auto simp: is_digit_def code_def)
  have sg: "([]::string) = [] \<or> [] = ''+'' \<or> [] = ''-''" by simp
  have pre: "([]::string) = [] \<or> last [] = CHR '';''" by simp
  from parse_last_rate_numeral [OF ds sg pre, of lim self]
  have "parse_audio_mime_type self lim (''rate='' @ ?ds) =
          Inr (if too_long lim ?ds then \<lparr>bits_per_sample = 16, rate = 24000\<rparr>
               else \<lparr>bits_per_sample = 16, rate = 24000\<rparr>\<lparr>rate := decimal ?ds\<rparr>)"
    by simp
  moreover have "decimal ?ds = 8000"
    unfolding decimal_zeros by (simp add: decimal_def digit_val_def code_def)
  moreover have "too_long lim ?ds \<longleftrightarrow> 0 < lim \<and> lim < 704"
    by (simp add: too_long_def)
  ultimately show ?thesis by (simp add: padded_rate_def)
qed

subsection \<open>The claims about the header fields, the parser and determinism\<close>

text \<open>
  C2. Let the descriptor parse to the pair \<open>p\<close>, and let \<open>p\<close> be valid: a positive rate and
  a positive multiple of 8 as bits per sample, each within its field, the byte rate within
  32 bits. Then for every payload that fits (\<open>36 + n\<close> within 32 bits) the encoder returns,
  and its header holds, little-endian at the offsets of the 44-byte PCM layout,
  Subchunk1Size 16 at 16, AudioFormat 1 at 20, NumChannels 1 at 22, SampleRate at 24,
  ByteRate at 28 with \<open>ByteRate \<times> 8 = rate \<times> bits\<close>, BlockAlign at 32 with
  \<open>BlockAlign \<times> 8 = bits\<close>, and BitsPerSample at 34. For a payload that does not fit
  there is no header: the encoder raises \<^verbatim>\<open>struct.error\<close>.
\<close>

theorem convert_to_wav_format_fields:
  assumes "parse_audio_mime_type self lim desc = Inr p" and "valid_params p"
  shows "(36 + int (length payload) < 2 ^ 32 \<longrightarrow>
           (\<exists>out. convert_to_wav self lim payload desc = Inr out
              \<and> le_val (field_at 28 4 out) = rate p * (bits_per_sample p div 8)
              \<and> le_val (field_at 28 4 out) * 8 = rate p * bits_per_sample p
              \<and> le_val (field_at 32 2 out) = bits_per_sample p div 8
              \<and> le_val (field_at 32 2 out) * 8 = bits_per_sample p
              \<and> le_val (field_at 22 2 out) = 1
              \<and> le_val (field_at 20 2 out) = 1
              \<and> le_val (field_at 16 4 out) = 16
              \<and> le_val (field_at 24 4 out) = rate p
              \<and> le_val (field_at 34 2 out) = bits_per_sample p
              \<and> field_at 0 4 out = ascii ''RIFF'' \<and> field_at 8 4 out = ascii ''WAVE''
              \<and> field_at 12 4 out = ascii ''fmt '' \<and> field_at 36 4 out = ascii ''data''))
       \<and> (\<not> 36 + int (length payload) < 2 ^ 32 \<longrightarrow>
            convert_to_wav self lim payload desc = Inl StructError)"
proof (intro conjI impI)
  assume fit: "36 + int (length payload) < 2 ^ 32"
  from assms(2) have v: "0 \<le> rate p" "rate p < 2 ^ 32" "0 \<le> bits_per_sample p"
      "bits_per_sample p < 2 ^ 16" "rate p * (bits_per_sample p div 8) < 2 ^ 32"
      "8 dvd bits_per_sample p"
    by (simp_all add: valid_params_def)
  have d8: "0 \<le> bits_per_sample p div 8" "bits_per_sample p div 8 < 2 ^ 16"
    using v(3,4) by simp_all
  have br: "0 \<le> rate p * (bits_per_sample p div 8)"
    using v(1) d8(1) by simp
  have ex: "bits_per_sample p div 8 * 8 = bits_per_sample p"
    using v(6) by simp
  let ?out = "spec_wav_header p (length payload) @ payload"
  have out: "convert_to_wav self lim payload desc = Inr ?out"
    unfolding convert_to_wav_Inr using assms(1) v(1-5) br fit by simp
  note dec = spec_wav_header_def field_at_def ascii_def le_val_le_bytes
  have f28: "le_val (field_at 28 4 ?out) = rate p * (bits_per_sample p div 8)"
    using br v(5) by (simp add: dec)
  have f32: "le_val (field_at 32 2 ?out) = bits_per_sample p div 8"
    using d8 by (simp add: dec)
  have f28': "le_val (field_at 28 4 ?out) * 8 = rate p * bits_per_sample p"
    unfolding f28 using ex by (simp add: mult.assoc)
  have f32': "le_val (field_at 32 2 ?out) * 8 = bits_per_sample p"
    unfolding f32 by (rule ex)
  have f22: "le_val (field_at 22 2 ?out) = 1" by (simp add: dec)
  have f20: "le_val (field_at 20 2 ?out) = 1" by (simp add: dec)
  have f16: "le_val (field_at 16 4 ?out) = 16" by (simp add: dec)
  have f24: "le_val (field_at 24 4 ?out) = rate p" using v(1,2) by (simp add: dec)
  have f34: "le_val (field_at 34 2 ?out) = bits_per_sample p" using v(3,4) by (simp add: dec)
  have ids: "field_at 0 4 ?out = ascii ''RIFF''" "field_at 8 4 ?out = ascii ''WAVE''"
    "field_at 12 4 ?out = ascii ''fmt ''" "field_at 36 4 ?out = ascii ''data''"
    by (simp_all add: dec)
  show "\<exists>out. convert_to_wav self lim payload desc = Inr out
              \<and> le_val (field_at 28 4 out) = rate p * (bits_per_sample p div 8)
              \<and> le_val (field_at 28 4 out) * 8 = rate p * bits_per_sample p
              \<and> le_val (field_at 32 2 out) = bits_per_sample p div 8
              \<and> le_val (field_at 32 2 out) * 8 = bits_per_sample p
              \<and> le_val (field_at 22 2 out) = 1
              \<and> le_val (field_at 20 2 out) = 1
              \<and> le_val (field_at 16 4 out) = 16
              \<and> le_val (field_at 24 4 out) = rate p
              \<and> le_val (field_at 34 2 out) = bits_per_sample p
              \<and> field_at 0 4 out = ascii ''RIFF'' \<and> field_at 8 4 out = ascii ''WAVE''
              \<and> field_at 12 4 out = ascii ''fmt '' \<and> field_at 36 4 out = ascii ''data''"
    by (intro exI [of _ ?out] conjI out f28 f28' f32 f32' f22 f20 f16 f24 f34 ids)
next
  assume "\<not> 36 + int (length payload) < 2 ^ 32"
  then show "convert_to_wav self lim payload desc = Inl StructError"
    using assms(1) by (simp add: convert_to_wav_def pack_uint_def ascii_def)
qed

theorem convert_to_wav_format_fields_witness:
  "convert_to_wav example_agent 4300 [7, 9] ''audio/L24;rate=48000'' =
     Inr [82, 73, 70, 70, 38, 0, 0, 0, 87, 65, 86, 69, 102, 109, 116, 32, 16, 0, 0, 0, 1, 0,
          1, 0, 128, 187, 0, 0, 128, 50, 2, 0, 3, 0, 24, 0, 100, 97, 116, 97, 2, 0, 0, 0,
          7, 9]
   \<and> le_val (field_at 28 4
      [82, 73, 70, 70, 38, 0, 0, 0, 87, 65, 86, 69, 102, 109, 116, 32, 16, 0, 0, 0, 1, 0,
       1, 0, 128, 187, 0, 0, 128, 50, 2, 0, 3, 0, 24, 0, 100, 97, 116, 97, 2, 0, 0, 0,
       7, 9]) = 144000
   \<and> le_val (field_at 32 2
      [82, 73, 70, 70, 38, 0, 0, 0, 87, 65, 86, 69, 102, 109, 116, 32, 16, 0, 0, 0, 1, 0,
       1, 0, 128, 187, 0, 0, 128, 50, 2, 0, 3, 0, 24, 0, 100, 97, 116, 97, 2, 0, 0, 0,
       7, 9]) = 3"
proof -
  let ?p = "\<lparr>bits_per_sample = 24, rate = 48000\<rparr>"
  have p: "parse_audio_mime_type example_agent 4300 ''audio/L24;rate=48000'' = Inr ?p"
    by (simp add: parse_eval string_eval int_eval)
  have v: "valid_params ?p" by (simp add: valid_params_def)
  have fit: "36 + int (length [7, 9 :: byte]) < 2 ^ 32" by simp
  from convert_to_wav_format_fields [OF p v, of "[7, 9]"] fit
  obtain out where out: "convert_to_wav example_agent 4300 [7, 9] ''audio/L24;rate=48000'' = Inr out"
    and f: "le_val (field_at 28 4 out) = rate ?p * (bits_per_sample ?p div 8)"
           "le_val (field_at 32 2 out) = bits_per_sample ?p div 8"
    by blast
  have h: "convert_to_wav example_agent 4300 [7, 9] ''audio/L24;rate=48000'' =
     Inr [82, 73, 70, 70, 38, 0, 0, 0, 87, 65, 86, 69, 102, 109, 116, 32, 16, 0, 0, 0, 1, 0,
          1, 0, 128, 187, 0, 0, 128, 50, 2, 0, 3, 0, 24, 0, 100, 97, 116, 97, 2, 0, 0, 0,
          7, 9]"
    by (simp add: wav_eval parse_eval string_eval int_eval)
  with out have "out = [82, 73, 70, 70, 38, 0, 0, 0, 87, 65, 86, 69, 102, 109, 116, 32, 16, 0,
          0, 0, 1, 0, 1, 0, 128, 187, 0, 0, 128, 50, 2, 0, 3, 0, 24, 0, 100, 97, 116, 97,
          2, 0, 0, 0, 7, 9]"
    by simp
  with f h show ?thesis by simp
qed

text \<open>
  C3 (as amended). \<^verbatim>\<open>audio/L16;rate=24000\<close> parses to 16 bits and rate 24000,
  \<^verbatim>\<open>audio/L24;rate=48000\<close> to 24 bits and rate 48000; a descriptor none of whose
  parameters is a rate or an \<^verbatim>\<open>audio/L\<close> parameter parses to the defaults 16 and 24000.
  A rate parameter whose value \<^verbatim>\<open>int\<close> refuses (such as \<^verbatim>\<open>rate=abc\<close>) raises nothing
  and changes nothing: the parameters read so far stay as they are. So a descriptor all of
  whose rate values are unparseable has the default rate 24000, as \<^verbatim>\<open>rate=abc\<close> has.
\<close>

theorem parse_audio_mime_type_examples:
  "parse_audio_mime_type self lim ''audio/L16;rate=24000'' =
     Inr \<lparr>bits_per_sample = 16, rate = 24000\<rparr>
   \<and> parse_audio_mime_type self lim ''audio/L24;rate=48000'' =
     Inr \<lparr>bits_per_sample = 24, rate = 48000\<rparr>
   \<and> ((\<forall>p \<in> set (split CHR '';'' d). \<not> recognised p) \<longrightarrow>
        parse_audio_mime_type self lim d = Inr \<lparr>bits_per_sample = 16, rate = 24000\<rparr>)
   \<and> (unparseable_rate lim q \<longrightarrow> parse_param lim q acc = Inr acc)
   \<and> ((\<forall>p \<in> set (split CHR '';'' d'). rate_parameter p \<longrightarrow> unparseable_rate lim p) \<longrightarrow>
        (\<exists>b. parse_audio_mime_type self lim d' = Inr \<lparr>bits_per_sample = b, rate = 24000\<rparr>))
   \<and> unparseable_rate lim ''rate=abc''
   \<and> parse_audio_mime_type self lim ''rate=abc'' = Inr \<lparr>bits_per_sample = 16, rate = 24000\<rparr>"
proof (intro conjI impI)
  show "parse_audio_mime_type self lim ''audio/L16;rate=24000'' =
          Inr \<lparr>bits_per_sample = 16, rate = 24000\<rparr>"
    by (simp add: parse_eval string_eval int_eval)
  show "parse_audio_mime_type self lim ''audio/L24;rate=48000'' =
          Inr \<lparr>bits_per_sample = 24, rate = 48000\<rparr>"
    by (simp add: parse_eval string_eval int_eval)
  show "parse_audio_mime_type self lim ''rate=abc'' = Inr \<lparr>bits_per_sample = 16, rate = 24000\<rparr>"
    by (simp add: parse_eval string_eval int_eval)
  show "unparseable_rate lim ''rate=abc''"
    by (simp add: unparseable_rate_def rate_parameter_def string_eval int_eval)
next
  assume "\<forall>p \<in> set (split CHR '';'' d). \<not> recognised p"
  then show "parse_audio_mime_type self lim d = Inr \<lparr>bits_per_sample = 16, rate = 24000\<rparr>"
    unfolding parse_audio_mime_type_def by (rule parse_loop_unrecognised)
next
  assume "unparseable_rate lim q"
  then show "parse_param lim q acc = Inr acc" by (rule parse_param_unparseable)
next
  assume "\<forall>p \<in> set (split CHR '';'' d'). rate_parameter p \<longrightarrow> unparseable_rate lim p"
  from parse_loop_rates_unparseable [OF this, of "\<lparr>bits_per_sample = 16, rate = 24000\<rparr>"]
  obtain acc' where "parse_loop lim (split CHR '';'' d') \<lparr>bits_per_sample = 16, rate = 24000\<rparr>
      = Inr acc'" "rate acc' = 24000"
    by auto
  then have "parse_audio_mime_type self lim d' =
      Inr \<lparr>bits_per_sample = bits_per_sample acc', rate = 24000\<rparr>"
    by (simp add: parse_audio_mime_type_def)
  then show "\<exists>b. parse_audio_mime_type self lim d' = Inr \<lparr>bits_per_sample = b, rate = 24000\<rparr>"
    by blast
qed

theorem parse_audio_mime_type_examples_witness:
  "parse_audio_mime_type example_agent 4300 ''audio/mpeg; codec=mp3'' =
     Inr \<lparr>bits_per_sample = 16, rate = 24000\<rparr>
   \<and> parse_param 4300 ''rate=abc'' \<lparr>bits_per_sample = 24, rate = 48000\<rparr> =
     Inr \<lparr>bits_per_sample = 24, rate = 48000\<rparr>
   \<and> parse_audio_mime_type example_agent 4300 ''audio/L24;rate=abc'' =
     Inr \<lparr>bits_per_sample = 24, rate = 24000\<rparr>"
proof -
  note inst = parse_audio_mime_type_examples [of example_agent 4300 "''audio/mpeg; codec=mp3''"
      "''rate=abc''" "\<lparr>bits_per_sample = 24, rate = 48000\<rparr>" "''audio/L24;rate=abc''"]
  have h1: "\<forall>p \<in> set (split CHR '';'' ''audio/mpeg; codec=mp3''). \<not> recognised p"
    by (simp add: parse_eval string_eval)
  have h2: "unparseable_rate 4300 ''rate=abc''"
    by (simp add: unparseable_rate_def rate_parameter_def string_eval int_eval)
  have h3: "\<forall>p \<in> set (split CHR '';'' ''audio/L24;rate=abc'').
              rate_parameter p \<longrightarrow> unparseable_rate 4300 p"
    by (simp add: unparseable_rate_def rate_parameter_def string_eval int_eval)
  from inst h1 have 1: "parse_audio_mime_type example_agent 4300 ''audio/mpeg; codec=mp3'' =
     Inr \<lparr>bits_per_sample = 16, rate = 24000\<rparr>" by blast
  from inst h2 have 2: "parse_param 4300 ''rate=abc'' \<lparr>bits_per_sample = 24, rate = 48000\<rparr> =
     Inr \<lparr>bits_per_sample = 24, rate = 48000\<rparr>" by blast
  from inst h3 obtain b where
    "parse_audio_mime_type example_agent 4300 ''audio/L24;rate=abc'' =
       Inr \<lparr>bits_per_sample = b, rate = 24000\<rparr>" by blast
  moreover have "parse_audio_mime_type example_agent 4300 ''audio/L24;rate=abc'' =
       Inr \<lparr>bits_per_sample = 24, rate = 24000\<rparr>"
    by (simp add: parse_eval string_eval int_eval)
  ultimately have 3: "parse_audio_mime_type example_agent 4300 ''audio/L24;rate=abc'' =
       Inr \<lparr>bits_per_sample = 24, rate = 24000\<rparr>" by simp
  from 1 2 3 show ?thesis by blast
qed

text \<open>The claim as written sends every descriptor with an unparseable rate value to the
  default rate. After \<^verbatim>\<open>rate=48000\<close> the unparseable \<^verbatim>\<open>rate=abc\<close> leaves 48000 in place.\<close>

theorem parse_keeps_earlier_rate:
  "parse_audio_mime_type example_agent 4300 ''rate=48000;rate=abc'' =
     Inr \<lparr>bits_per_sample = 16, rate = 48000\<rparr>"
  by (simp add: parse_eval string_eval int_eval)

text \<open>
  C4 (as amended). The encoder reads nothing of the agent object, so its result is a function
  of the payload, the descriptor and the interpreter's limit on the digits of an integer
  string, which \<^verbatim>\<open>int\<close> consults. With the same limit, or with a descriptor of at most 640
  characters (on which no limit takes effect), two applications give the same result,
  bytes or exception.
\<close>

theorem convert_to_wav_deterministic:
  assumes "lim = lim' \<or> length desc \<le> 640"
  shows "convert_to_wav self lim payload desc = convert_to_wav self' lim' payload desc"
proof -
  have "parse_audio_mime_type self lim desc = parse_audio_mime_type self' lim' desc"
    using assms
  proof
    assume "lim = lim'"
    then show ?thesis by (simp add: parse_audio_mime_type_def)
  next
    assume "length desc \<le> 640"
    then show ?thesis by (rule parse_short)
  qed
  then show ?thesis by (simp add: convert_to_wav_def)
qed

theorem convert_to_wav_deterministic_witness:
  "length ''audio/L16;rate=24000'' \<le> 640
   \<and> convert_to_wav example_agent 641 [1, 2] ''audio/L16;rate=24000'' =
     convert_to_wav (example_agent\<lparr>gemini_api_key := ''other''\<rparr>) 4300 [1, 2]
       ''audio/L16;rate=24000''"
proof -
  have h: "(641::nat) = 4300 \<or> length ''audio/L16;rate=24000'' \<le> 640" by simp
  from convert_to_wav_deterministic [OF h] show ?thesis by simp
qed

text \<open>The claim as written makes the result depend on the two arguments only. The same
  empty payload and the same descriptor, a rate of 704 digits, give a header with the rate
  24000 when the digit limit is 641 and one with the rate 8000 under the standard limit.\<close>

theorem convert_to_wav_depends_on_digit_limit:
  "convert_to_wav example_agent 641 [] padded_rate =
     Inr [82, 73, 70, 70, 36, 0, 0, 0, 87, 65, 86, 69, 102, 109, 116, 32, 16, 0, 0, 0, 1, 0,
          1, 0, 192, 93, 0, 0, 128, 187, 0, 0, 2, 0, 16, 0, 100, 97, 116, 97, 0, 0, 0, 0]
   \<and> convert_to_wav example_agent 4300 [] padded_rate =
     Inr [82, 73, 70, 70, 36, 0, 0, 0, 87, 65, 86, 69, 102, 109, 116, 32, 16, 0, 0, 0, 1, 0,
          1, 0, 64, 31, 0, 0, 128, 62, 0, 0, 2, 0, 16, 0, 100, 97, 116, 97, 0, 0, 0, 0]"
  unfolding convert_to_wav_def parse_padded_rate
  by (simp add: pack_uint_def le_bytes_2 le_bytes_4 ascii_def)

text \<open>
  C10 (as amended). Parsing is total: every string yields a pair and no exception. A
  parameter \<^verbatim>\<open>rate=\<close> followed by an optional sign and a nonempty string of digits, after
  which no rate parameter parses, sets the rate to that numeral (zero and negative numerals
  included) unless the digit string is longer than the interpreter's limit on integer
  strings (which applies above 640 digits only, and is 4300 unless configured); in that
  case \<^verbatim>\<open>int\<close> raises, the exception is caught, and the rate stays what the parameters before
  had made it.
\<close>

theorem parse_audio_mime_type_total:
  "(\<exists>p. parse_audio_mime_type self lim d = Inr p)
   \<and> (split CHR '';'' d' = ps @ (''rate='' @ sg @ ds) # qs
       \<and> ds \<noteq> [] \<and> (\<forall>c \<in> set ds. is_digit c) \<and> (sg = [] \<or> sg = ''+'' \<or> sg = ''-'')
       \<and> (\<forall>q \<in> set qs. rate_parameter q \<longrightarrow> unparseable_rate lim q) \<longrightarrow>
      (\<exists>b acc. parse_loop lim ps \<lparr>bits_per_sample = 16, rate = 24000\<rparr> = Inr acc
         \<and> parse_audio_mime_type self lim d' =
             Inr \<lparr>bits_per_sample = b,
                  rate = (if too_long lim ds then rate acc
                          else (if sg = ''-'' then - 1 else 1) * decimal ds)\<rparr>))
   \<and> parse_audio_mime_type self lim ''rate=-5'' = Inr \<lparr>bits_per_sample = 16, rate = - 5\<rparr>
   \<and> parse_audio_mime_type self lim ''rate=0'' = Inr \<lparr>bits_per_sample = 16, rate = 0\<rparr>"
proof (intro conjI impI)
  show "\<exists>p. parse_audio_mime_type self lim d = Inr p"
    unfolding parse_audio_mime_type_def by (rule parse_loop_total)
  show "parse_audio_mime_type self lim ''rate=-5'' = Inr \<lparr>bits_per_sample = 16, rate = - 5\<rparr>"
    by (simp add: parse_eval string_eval int_eval)
  show "parse_audio_mime_type self lim ''rate=0'' = Inr \<lparr>bits_per_sample = 16, rate = 0\<rparr>"
    by (simp add: parse_eval string_eval int_eval)
next
  assume a: "split CHR '';'' d' = ps @ (''rate='' @ sg @ ds) # qs
       \<and> ds \<noteq> [] \<and> (\<forall>c \<in> set ds. is_digit c) \<and> (sg = [] \<or> sg = ''+'' \<or> sg = ''-'')
       \<and> (\<forall>q \<in> set qs. rate_parameter q \<longrightarrow> unparseable_rate lim q)"
  then have sp: "split CHR '';'' d' = ps @ (''rate='' @ sg @ ds) # qs"
    and ds: "ds \<noteq> []" "\<forall>c \<in> set ds. is_digit c" and sg: "sg = [] \<or> sg = ''+'' \<or> sg = ''-''"
    and qs: "\<forall>q \<in> set qs. rate_parameter q \<longrightarrow> unparseable_rate lim q"
    by simp_all
  show "\<exists>b acc. parse_loop lim ps \<lparr>bits_per_sample = 16, rate = 24000\<rparr> = Inr acc
         \<and> parse_audio_mime_type self lim d' =
             Inr \<lparr>bits_per_sample = b,
                  rate = (if too_long lim ds then rate acc
                          else (if sg = ''-'' then - 1 else 1) * decimal ds)\<rparr>"
    by (rule parse_rate_numeral_general [OF sp ds sg qs])
qed

theorem parse_audio_mime_type_total_witness:
  "parse_audio_mime_type example_agent 4300 ''rate=-5;codec=pcm'' =
     Inr \<lparr>bits_per_sample = 16, rate = - 5\<rparr>
   \<and> parse_audio_mime_type example_agent 641
       (''audio/L8;rate=8000;rate='' @ replicate 700 CHR ''1'') =
     Inr \<lparr>bits_per_sample = 8, rate = 8000\<rparr>"
proof -
  let ?init = "\<lparr>bits_per_sample = 16, rate = 24000\<rparr>"
  have a1: "split CHR '';'' ''rate=-5;codec=pcm'' = [] @ (''rate='' @ ''-'' @ ''5'') # [''codec=pcm'']
       \<and> ''5'' \<noteq> [] \<and> (\<forall>c \<in> set ''5''. is_digit c) \<and> (''-'' = [] \<or> ''-'' = ''+'' \<or> ''-'' = ''-'')
       \<and> (\<forall>q \<in> set [''codec=pcm'']. rate_parameter q \<longrightarrow> unparseable_rate 4300 q)"
    by (simp add: is_digit_def rate_parameter_def string_eval)
  from parse_audio_mime_type_total [of example_agent 4300 "[]" "''rate=-5;codec=pcm''" "[]"
      "''-''" "''5''" "[''codec=pcm'']"] a1
  obtain b where "parse_audio_mime_type example_agent 4300 ''rate=-5;codec=pcm'' =
      Inr \<lparr>bits_per_sample = b, rate = (if too_long 4300 ''5'' then 24000 else - 1 * decimal ''5'')\<rparr>"
    by auto
  moreover have "parse_audio_mime_type example_agent 4300 ''rate=-5;codec=pcm'' =
      Inr \<lparr>bits_per_sample = 16, rate = - 5\<rparr>"
    by (simp add: parse_eval string_eval int_eval)
  ultimately have 1: "parse_audio_mime_type example_agent 4300 ''rate=-5;codec=pcm'' =
      Inr \<lparr>bits_per_sample = 16, rate = - 5\<rparr>" by simp
  let ?ds = "replicate 700 CHR ''1''"
  let ?d = "''audio/L8;rate=8000;rate='' @ ?ds"
  have dig: "\<forall>c \<in> set ?ds. is_digit c" by (simp add: is_digit_def code_def)
  have "?d = ''audio/L8;rate=8000'' @ CHR '';'' # (''rate='' @ [] @ ?ds)" by simp
  then have "split CHR '';'' ?d = split CHR '';'' ''audio/L8;rate=8000'' @ split CHR '';'' (''rate='' @ [] @ ?ds)"
    by (simp only: split_append_sep)
  also have "split CHR '';'' (''rate='' @ [] @ ?ds) = [''rate='' @ [] @ ?ds]"
    by (rule split_rate_numeral [OF dig]) simp
  finally have sp: "split CHR '';'' ?d = [''audio/L8'', ''rate=8000''] @ (''rate='' @ [] @ ?ds) # []"
    by simp
  have pl: "parse_loop 641 [''audio/L8'', ''rate=8000''] ?init = Inr \<lparr>bits_per_sample = 8, rate = 8000\<rparr>"
    by (simp add: parse_eval string_eval int_eval)
  have tl: "too_long 641 ?ds" by (simp add: too_long_def)
  have a2: "split CHR '';'' ?d = [''audio/L8'', ''rate=8000''] @ (''rate='' @ [] @ ?ds) # []
       \<and> ?ds \<noteq> [] \<and> (\<forall>c \<in> set ?ds. is_digit c) \<and> (([]::string) = [] \<or> [] = ''+'' \<or> [] = ''-'')
       \<and> (\<forall>q \<in> set ([]::string list). rate_parameter q \<longrightarrow> unparseable_rate 641 q)"
    using sp dig by simp
  from parse_audio_mime_type_total [of example_agent 641 "[]" ?d "[''audio/L8'', ''rate=8000'']"
      "[]" ?ds "[]"] a2
  obtain b' acc where acc: "parse_loop 641 [''audio/L8'', ''rate=8000''] ?init = Inr acc"
    and r: "parse_audio_mime_type example_agent 641 ?d =
      Inr \<lparr>bits_per_sample = b', rate = (if too_long 641 ?ds then rate acc
                          else (if ([]::string) = ''-'' then - 1 else 1) * decimal ?ds)\<rparr>"
    by blast
  from acc pl have "rate acc = 8000" by simp
  with r tl have r': "parse_audio_mime_type example_agent 641 ?d =
      Inr \<lparr>bits_per_sample = b', rate = 8000\<rparr>" by simp
  have "parse_audio_mime_type example_agent 641 ?d =
      bind_err (Inr \<lparr>bits_per_sample = 8, rate = 8000\<rparr>)
        (parse_loop 641 ((''rate='' @ [] @ ?ds) # []))"
    unfolding parse_audio_mime_type_def sp parse_loop_append pl ..
  also have "\<dots> = Inr \<lparr>bits_per_sample = 8, rate = 8000\<rparr>"
    using parse_param_rate_numeral [of ?ds "[]" 641 "\<lparr>bits_per_sample = 8, rate = 8000\<rparr>"] dig tl
    by simp
  finally have 2: "parse_audio_mime_type example_agent 641 ?d =
      Inr \<lparr>bits_per_sample = 8, rate = 8000\<rparr>" .
  from 1 2 show ?thesis by blast
qed

text \<open>With the interpreter's standard limit of 4300 digits, a rate of 4301 digits is not
  accepted: the parser answers the default rate.\<close>

theorem parse_audio_mime_type_long_rate_default:
  "parse_audio_mime_type example_agent 4300 (''rate='' @ replicate 4301 CHR ''1'') =
     Inr \<lparr>bits_per_sample = 16, rate = 24000\<rparr>
   \<and> decimal (replicate 4301 CHR ''1'') \<noteq> 24000"
proof
  have "parse_param 4300 (''rate='' @ [] @ replicate 4301 CHR ''1'') \<lparr>bits_per_sample = 16, rate = 24000\<rparr>
          = Inr \<lparr>bits_per_sample = 16, rate = 24000\<rparr>"
    by (subst parse_param_rate_numeral) (simp_all add: is_digit_def code_def too_long_def)
  moreover have "split CHR '';'' (''rate='' @ [] @ replicate 4301 CHR ''1'') =
                   [''rate='' @ [] @ replicate 4301 CHR ''1'']"
    by (rule split_rate_numeral) (simp_all add: is_digit_def code_def)
  ultimately show "parse_audio_mime_type example_agent 4300 (''rate='' @ replicate 4301 CHR ''1'') =
     Inr \<lparr>bits_per_sample = 16, rate = 24000\<rparr>"
    by (simp add: parse_audio_mime_type_def)
  show "decimal (replicate 4301 CHR ''1'') \<noteq> 24000"
  proof -
    have "replicate 4301 CHR ''1'' = replicate 4300 CHR ''1'' @ [CHR ''1'']"
      using replicate_append_same [of 4300 "CHR ''1''"] by (simp add: replicate_Suc [symmetric] del: replicate_Suc)
    then have "decimal (replicate 4301 CHR ''1'') = 10 * decimal (replicate 4300 CHR ''1'') + 1"
      by (simp only: decimal_snoc) (simp add: digit_val_def code_def)
    then show ?thesis using decimal_ones [of 4300] by simp
  qed
qed

subsection \<open>The file system\<close>

lemma bind_w_simps [simp]:
  "bind_w (Inl e, w) f = (Inl e, w)" "bind_w (Inr v, w) f = f v w"
  by (simp_all add: bind_w_def)

lemma bind_w_Inr:
  "bind_w m f = (Inr r, w') \<longleftrightarrow> (\<exists>v w1. m = (Inr v, w1) \<and> f v w1 = (Inr r, w'))"
  by (cases m; cases "fst m") (auto simp: bind_w_def)

lemma lookup_store: "lookup (store p n w) q = (if q = p then Some n else lookup w q)"
  by (simp add: lookup_def store_def update_conv')

lemma lookup_delete:
  "lookup (w\<lparr>fs := AList.delete p (fs w)\<rparr>) q = (if q = p then None else lookup w q)"
  by (simp add: lookup_def delete_conv')

lemma store_fields [simp]:
  "tick (store p n w) = tick w" "sent (store p n w) = sent w"
  "stream_reads (store p n w) = stream_reads w"
  by (simp_all add: store_def)

lemma mkdir_exist_ok_Inr:
  assumes "mkdir_exist_ok p w = (Inr u, w')"
  shows "lookup w' = (if is_dir w p then lookup w else (lookup w)(p \<mapsto> Dir))"
    and "is_dir w' p" and "tick w' = tick w" and "sent w' = sent w"
    and "stream_reads w' = stream_reads w"
  using assms
  by (auto simp: mkdir_exist_ok_def is_dir_def lookup_store fun_eq_iff split: if_splits)

lemma write_file_Inr:
  assumes "write_file p c w = (Inr u, w')"
  shows "w' = store p (File c) w" and "\<not> is_dir w p" and "is_dir w (butlast p)"
  using assms by (auto simp: write_file_def split: if_splits)

lemma rename_Inr:
  assumes "rename src dst w = (Inr u, w')"
  shows "\<exists>c. lookup w src = Some (File c)
           \<and> w' = store dst (File c) (w\<lparr>fs := AList.delete src (fs w)\<rparr>)"
    and "\<not> is_dir w dst" and "is_dir w (butlast dst)"
  using assms by (auto simp: rename_def split: option.splits node.splits if_splits)

subsection \<open>The speech stream\<close>

lemma consume_stream_skip:
  "\<forall>x \<in> set pre. inline_audio x = None \<Longrightarrow>
   consume_stream self env fn (map Inr pre @ rest) w =
   consume_stream self env fn rest (w\<lparr>stream_reads := stream_reads w + length pre\<rparr>)"
proof (induction pre arbitrary: w)
  case Nil
  show ?case by simp
next
  case (Cons x pre)
  then have "inline_audio x = None" and "\<forall>y \<in> set pre. inline_audio y = None" by simp_all
  then show ?case using Cons.IH [of "w\<lparr>stream_reads := Suc (stream_reads w)\<rparr>"] by simp
qed

lemma consume_stream_first:
  assumes "\<forall>x \<in> set pre. inline_audio x = None" "inline_audio c = Some inline"
  shows "consume_stream self env fn (map Inr pre @ Inr c # rest) w =
         write_audio self env fn inline (w\<lparr>stream_reads := stream_reads w + length pre + 1\<rparr>)"
  using assms by (simp add: consume_stream_skip)

lemma write_audio_reads: "stream_reads (snd (write_audio self env fn inline w)) = stream_reads w"
  by (auto simp: write_audio_def save_binary_file_def write_file_def bind_w_def Let_def
        split: option.splits sum.splits prod.splits)

lemma write_audio_Inr:
  assumes "write_audio self env fn (bytes, mime) w = (Inr p, w')"
  shows "\<exists>ext written. p = output_dir self @ [replace ''.wav'' [] fn @ ext]
           \<and> w' = store p (File (Bytes written)) w
           \<and> (case guess_extension env mime of
                 None \<Rightarrow> ext = ''.wav''
                   \<and> convert_to_wav self (int_max_str_digits env) bytes mime = Inr written
               | Some e \<Rightarrow> ext = e \<and> written = bytes)"
proof (cases "guess_extension env mime")
  case None
  with assms obtain wav where wav: "convert_to_wav self (int_max_str_digits env) bytes mime = Inr wav"
    by (cases "convert_to_wav self (int_max_str_digits env) bytes mime")
       (simp_all add: write_audio_def)
  with assms None show ?thesis
    by (auto simp: write_audio_def save_binary_file_def bind_w_Inr Let_def dest: write_file_Inr(1))
next
  case (Some e)
  with assms show ?thesis
    by (auto simp: write_audio_def save_binary_file_def bind_w_Inr Let_def dest: write_file_Inr(1))
qed

lemma write_audio_Inl_wav:
  assumes "guess_extension env mime = None"
    and "convert_to_wav self (int_max_str_digits env) bytes mime = Inl e"
  shows "write_audio self env fn (bytes, mime) w = (Inl e, w)"
  using assms by (simp add: write_audio_def)

lemma wav_differs: "convert_to_wav self lim bytes mime = Inr written \<Longrightarrow> written \<noteq> bytes"
proof
  assume a: "convert_to_wav self lim bytes mime = Inr written" and b: "written = bytes"
  from a obtain p where "written = spec_wav_header p (length bytes) @ bytes"
    unfolding convert_to_wav_Inr by blast
  then have "length written = 44 + length bytes"
    by (simp add: length_spec_wav_header)
  with b show False by simp
qed

lemma generate_audio_feedback_first:
  assumes "generate_content_stream env (Suc (tick w)) (voice_instruction style @ nl @ nl @ critique)
             = map Inr pre @ Inr c # rest"
    and "\<forall>x \<in> set pre. inline_audio x = None"
    and "inline_audio c = Some (bytes, mime)"
  shows "generate_audio_feedback self env critique style w =
         write_audio self env (''business_analysis_'' @ strftime_stamp (now env (tick w)) @ ''.wav'')
           (bytes, mime)
           (w\<lparr>tick := Suc (Suc (tick w)), stream_reads := stream_reads w + length pre + 1\<rparr>)"
  using assms by (simp add: generate_audio_feedback_def Let_def consume_stream_first)

subsection \<open>The claims about the speech stream\<close>

lemmas world_eval =
  generate_audio_feedback_def write_audio_def save_binary_file_def write_file_def is_dir_def
  lookup_def store_def inline_audio_def example_env_def example_world_def example_agent_def
  audio_chunk_def empty_chunk_def strftime_stamp_def pad2_def pad4_def digit_char_def
  voice_instruction_def nl_def

text \<open>
  C5. Let the speech stream deliver chunks without inline audio and then a chunk with the
  bytes \<open>bytes\<close> and the content type \<open>mime\<close>, and let the output directory exist. If the
  content type has a known extension \<open>ext\<close>, the function returns the path of the audio file
  with that extension, and the file holds \<open>bytes\<close>, unmodified: the encoder is not applied.
  If the content type has no known extension, the encoder is applied to \<open>bytes\<close>: when it
  returns \<open>wav\<close>, the function returns the path with the extension \<^verbatim>\<open>.wav\<close> and the file
  holds \<open>wav\<close>, which differs from \<open>bytes\<close>; when it raises, the function raises the same
  exception and writes nothing. (In both cases of a return the path is not a directory.)
\<close>

theorem wav_encoder_applied_iff_no_extension:
  assumes "generate_content_stream env (Suc (tick w)) (voice_instruction style @ nl @ nl @ critique)
             = map Inr pre @ Inr c # rest"
    and "\<forall>x \<in> set pre. inline_audio x = None"
    and "inline_audio c = Some (bytes, mime)"
    and "is_dir w (output_dir self)"
  shows "(guess_extension env mime = Some ext \<and> \<not> is_dir w (audio_target self env w ext) \<longrightarrow>
            generate_audio_feedback self env critique style w =
              (Inr (audio_target self env w ext),
               store (audio_target self env w ext) (File (Bytes bytes))
                 (w\<lparr>tick := Suc (Suc (tick w)),
                    stream_reads := stream_reads w + length pre + 1\<rparr>))
            \<and> read_file (audio_target self env w ext)
                (snd (generate_audio_feedback self env critique style w)) = Inr (Bytes bytes))
       \<and> (guess_extension env mime = None
            \<and> convert_to_wav self (int_max_str_digits env) bytes mime = Inr wav
            \<and> \<not> is_dir w (audio_target self env w ''.wav'') \<longrightarrow>
            generate_audio_feedback self env critique style w =
              (Inr (audio_target self env w ''.wav''),
               store (audio_target self env w ''.wav'') (File (Bytes wav))
                 (w\<lparr>tick := Suc (Suc (tick w)),
                    stream_reads := stream_reads w + length pre + 1\<rparr>))
            \<and> read_file (audio_target self env w ''.wav'')
                (snd (generate_audio_feedback self env critique style w)) = Inr (Bytes wav)
            \<and> wav \<noteq> bytes)
       \<and> (guess_extension env mime = None
            \<and> convert_to_wav self (int_max_str_digits env) bytes mime = Inl e \<longrightarrow>
            generate_audio_feedback self env critique style w =
              (Inl e, w\<lparr>tick := Suc (Suc (tick w)),
                        stream_reads := stream_reads w + length pre + 1\<rparr>))"
proof (intro conjI impI)
  let ?fn = "''business_analysis_'' @ strftime_stamp (now env (tick w)) @ ''.wav''"
  let ?w = "w\<lparr>tick := Suc (Suc (tick w)), stream_reads := stream_reads w + length pre + 1\<rparr>"
  have eq: "generate_audio_feedback self env critique style w =
              write_audio self env ?fn (bytes, mime) ?w"
    using assms(1-3) by (rule generate_audio_feedback_first)
  have dir: "is_dir ?w (output_dir self)" using assms(4) by (simp add: is_dir_def lookup_def)
  have wr: "write_file (audio_target self env w x) (Bytes b) ?w =
              (Inr (), store (audio_target self env w x) (File (Bytes b)) ?w)"
    if "\<not> is_dir w (audio_target self env w x)" for x b
    using that dir by (simp add: write_file_def audio_target_def is_dir_def lookup_def)
  have rd: "read_file p (store p (File b) v) = Inr b" for p b v
    by (simp add: read_file_def lookup_store)
  {
    assume a: "guess_extension env mime = Some ext \<and> \<not> is_dir w (audio_target self env w ext)"
    then have "write_audio self env ?fn (bytes, mime) ?w =
        (Inr (audio_target self env w ext),
         store (audio_target self env w ext) (File (Bytes bytes)) ?w)"
      using wr [of ext bytes]
      by (simp add: write_audio_def save_binary_file_def Let_def audio_target_def)
    then show g1: "generate_audio_feedback self env critique style w =
        (Inr (audio_target self env w ext),
         store (audio_target self env w ext) (File (Bytes bytes)) ?w)"
      by (simp add: eq)
    show "read_file (audio_target self env w ext)
            (snd (generate_audio_feedback self env critique style w)) = Inr (Bytes bytes)"
      unfolding g1 by (simp add: rd)
  }
  {
    assume a: "guess_extension env mime = None
            \<and> convert_to_wav self (int_max_str_digits env) bytes mime = Inr wav
            \<and> \<not> is_dir w (audio_target self env w ''.wav'')"
    then have "write_audio self env ?fn (bytes, mime) ?w =
        (Inr (audio_target self env w ''.wav''),
         store (audio_target self env w ''.wav'') (File (Bytes wav)) ?w)"
      using wr [of "''.wav''" wav]
      by (simp add: write_audio_def save_binary_file_def Let_def audio_target_def)
    then show g2: "generate_audio_feedback self env critique style w =
        (Inr (audio_target self env w ''.wav''),
         store (audio_target self env w ''.wav'') (File (Bytes wav)) ?w)"
      by (simp add: eq)
    show "read_file (audio_target self env w ''.wav'')
            (snd (generate_audio_feedback self env critique style w)) = Inr (Bytes wav)"
      unfolding g2 by (simp add: rd)
    from a show "wav \<noteq> bytes" by (blast dest: wav_differs)
  }
  {
    assume "guess_extension env mime = None
            \<and> convert_to_wav self (int_max_str_digits env) bytes mime = Inl e"
    then show "generate_audio_feedback self env critique style w = (Inl e, ?w)"
      by (simp add: eq write_audio_Inl_wav)
  }
qed

theorem wav_encoder_applied_iff_no_extension_witness:
  "fst (generate_audio_feedback example_agent mp3_env ''Fine'' ''upbeat'' example_world)
     = Inr [''agent'', ''feedback'', ''business_analysis_20250102_030405.mp3'']
   \<and> read_file [''agent'', ''feedback'', ''business_analysis_20250102_030405.mp3'']
       (snd (generate_audio_feedback example_agent mp3_env ''Fine'' ''upbeat'' example_world))
     = Inr (Bytes [1, 2])
   \<and> fst (generate_audio_feedback example_agent example_env ''Fine'' ''upbeat'' example_world)
     = Inr [''agent'', ''feedback'', ''business_analysis_20250102_030405.wav'']
   \<and> read_file [''agent'', ''feedback'', ''business_analysis_20250102_030405.wav'']
       (snd (generate_audio_feedback example_agent example_env ''Fine'' ''upbeat''
          example_world))
     = Inr (Bytes
       [82, 73, 70, 70, 38, 0, 0, 0, 87, 65, 86, 69, 102, 109, 116, 32, 16, 0, 0, 0, 1, 0,
        1, 0, 192, 93, 0, 0, 128, 187, 0, 0, 2, 0, 16, 0, 100, 97, 116, 97, 2, 0, 0, 0,
        1, 2])"
proof -
  let ?mime = "''audio/L16;rate=24000''"
  let ?wav = "[82, 73, 70, 70, 38, 0, 0, 0, 87, 65, 86, 69, 102, 109, 116, 32, 16, 0, 0, 0, 1, 0,
        1, 0, 192, 93, 0, 0, 128, 187, 0, 0, 2, 0, 16, 0, 100, 97, 116, 97, 2, 0, 0, 0,
        1, 2] :: byte list"
  have s1: "generate_content_stream mp3_env (Suc (tick example_world))
             (voice_instruction ''upbeat'' @ nl @ nl @ ''Fine'')
           = map Inr [empty_chunk] @ Inr (audio_chunk [1, 2] ?mime)
               # [Inr (audio_chunk [3, 4] ?mime)]"
    by (simp add: example_env_def mp3_env_def)
  have s2: "generate_content_stream example_env (Suc (tick example_world))
             (voice_instruction ''upbeat'' @ nl @ nl @ ''Fine'')
           = map Inr [empty_chunk] @ Inr (audio_chunk [1, 2] ?mime)
               # [Inr (audio_chunk [3, 4] ?mime)]"
    by (simp add: example_env_def)
  have k: "\<forall>x \<in> set [empty_chunk]. inline_audio x = None"
    by (simp add: inline_audio_def empty_chunk_def)
  have a: "inline_audio (audio_chunk [1, 2] ?mime) = Some ([1, 2], ?mime)"
    by (simp add: inline_audio_def audio_chunk_def)
  have d: "is_dir example_world (output_dir example_agent)"
    by (simp add: is_dir_def lookup_def example_world_def example_agent_def)
  have t1: "audio_target example_agent mp3_env example_world ''.mp3''
              = [''agent'', ''feedback'', ''business_analysis_20250102_030405.mp3'']"
    by code_simp
  have t2: "audio_target example_agent example_env example_world ''.wav''
              = [''agent'', ''feedback'', ''business_analysis_20250102_030405.wav'']"
    by code_simp
  have h1: "guess_extension mp3_env ?mime = Some ''.mp3''
      \<and> \<not> is_dir example_world (audio_target example_agent mp3_env example_world ''.mp3'')"
    unfolding t1 by (simp add: mp3_env_def is_dir_def lookup_def example_world_def)
  have cw: "convert_to_wav example_agent (int_max_str_digits example_env) [1, 2] ?mime = Inr ?wav"
    by (simp add: example_env_def wav_eval parse_eval string_eval int_eval)
  have h2: "guess_extension example_env ?mime = None
      \<and> convert_to_wav example_agent (int_max_str_digits example_env) [1, 2] ?mime = Inr ?wav
      \<and> \<not> is_dir example_world (audio_target example_agent example_env example_world ''.wav'')"
    unfolding t2 using cw by (simp add: example_env_def is_dir_def lookup_def example_world_def)
  from wav_encoder_applied_iff_no_extension [OF s1 k a d, of "''.mp3''"] h1
  have r1: "generate_audio_feedback example_agent mp3_env ''Fine'' ''upbeat'' example_world =
      (Inr (audio_target example_agent mp3_env example_world ''.mp3''),
       store (audio_target example_agent mp3_env example_world ''.mp3'') (File (Bytes [1, 2]))
         (example_world\<lparr>tick := Suc (Suc (tick example_world)),
            stream_reads := stream_reads example_world + length [empty_chunk] + 1\<rparr>))"
    and r2: "read_file (audio_target example_agent mp3_env example_world ''.mp3'')
       (snd (generate_audio_feedback example_agent mp3_env ''Fine'' ''upbeat'' example_world))
        = Inr (Bytes [1, 2])"
    by blast+
  from wav_encoder_applied_iff_no_extension [OF s2 k a d, of _ ?wav] h2
  have r3: "generate_audio_feedback example_agent example_env ''Fine'' ''upbeat'' example_world =
      (Inr (audio_target example_agent example_env example_world ''.wav''),
       store (audio_target example_agent example_env example_world ''.wav'') (File (Bytes ?wav))
         (example_world\<lparr>tick := Suc (Suc (tick example_world)),
            stream_reads := stream_reads example_world + length [empty_chunk] + 1\<rparr>))"
    and r4: "read_file (audio_target example_agent example_env example_world ''.wav'')
       (snd (generate_audio_feedback example_agent example_env ''Fine'' ''upbeat''
          example_world)) = Inr (Bytes ?wav)"
    by blast+
  have f1: "fst (generate_audio_feedback example_agent mp3_env ''Fine'' ''upbeat'' example_world)
     = Inr [''agent'', ''feedback'', ''business_analysis_20250102_030405.mp3'']"
    unfolding r1 t1 by simp
  have f3: "fst (generate_audio_feedback example_agent example_env ''Fine'' ''upbeat'' example_world)
     = Inr [''agent'', ''feedback'', ''business_analysis_20250102_030405.wav'']"
    unfolding r3 t2 by simp
  from f1 r2 [unfolded t1] f3 r4 [unfolded t2] show ?thesis by (intro conjI)
qed

text \<open>
  C9 (as amended). Let the stream deliver chunks the loop does not accept (no inline audio
  in the first part of the first candidate) and then a chunk it accepts, with bytes
  \<open>bytes\<close> and content type \<open>mime\<close>. Then the function has asked for exactly these
  chunks and for none of the later ones, whatever they are; its result is what the loop
  body makes of the accepted chunk alone; and when it returns a path, the one change to
  the file system is the file at that path, holding \<open>bytes\<close> when the content type has a
  known extension and the WAV encoding of \<open>bytes\<close> when it has none. When the encoder
  raises, so does the function, and nothing is written.
\<close>

theorem stream_stops_at_first_audio_chunk:
  assumes "generate_content_stream env (Suc (tick w)) (voice_instruction style @ nl @ nl @ critique)
             = map Inr pre @ Inr c # rest"
    and "\<forall>x \<in> set pre. inline_audio x = None"
    and "inline_audio c = Some (bytes, mime)"
  shows "stream_reads (snd (generate_audio_feedback self env critique style w))
           = stream_reads w + length pre + 1
       \<and> generate_audio_feedback self env critique style w =
           write_audio self env
             (''business_analysis_'' @ strftime_stamp (now env (tick w)) @ ''.wav'') (bytes, mime)
             (w\<lparr>tick := Suc (Suc (tick w)), stream_reads := stream_reads w + length pre + 1\<rparr>)
       \<and> (\<forall>p w'. generate_audio_feedback self env critique style w = (Inr p, w') \<longrightarrow>
             (\<exists>written. fs w' = AList.update p (File (Bytes written)) (fs w)
                \<and> (case guess_extension env mime of
                      None \<Rightarrow> convert_to_wav self (int_max_str_digits env) bytes mime = Inr written
                    | Some ext \<Rightarrow> written = bytes)))
       \<and> (\<forall>e. guess_extension env mime = None
                \<and> convert_to_wav self (int_max_str_digits env) bytes mime = Inl e \<longrightarrow>
              fst (generate_audio_feedback self env critique style w) = Inl e
              \<and> fs (snd (generate_audio_feedback self env critique style w)) = fs w)"
proof -
  let ?fn = "''business_analysis_'' @ strftime_stamp (now env (tick w)) @ ''.wav''"
  let ?w = "w\<lparr>tick := Suc (Suc (tick w)), stream_reads := stream_reads w + length pre + 1\<rparr>"
  have eq: "generate_audio_feedback self env critique style w =
              write_audio self env ?fn (bytes, mime) ?w"
    using assms by (rule generate_audio_feedback_first)
  have reads: "stream_reads (snd (generate_audio_feedback self env critique style w))
                 = stream_reads w + length pre + 1"
    by (simp add: eq write_audio_reads)
  have written: "\<exists>written. fs w' = AList.update p (File (Bytes written)) (fs w)
                \<and> (case guess_extension env mime of
                      None \<Rightarrow> convert_to_wav self (int_max_str_digits env) bytes mime = Inr written
                    | Some ext \<Rightarrow> written = bytes)"
    if "generate_audio_feedback self env critique style w = (Inr p, w')" for p w'
  proof -
    from that have "write_audio self env ?fn (bytes, mime) ?w = (Inr p, w')" by (simp add: eq)
    from write_audio_Inr [OF this] obtain ext written where
      "w' = store p (File (Bytes written)) ?w"
      "case guess_extension env mime of
         None \<Rightarrow> ext = ''.wav''
           \<and> convert_to_wav self (int_max_str_digits env) bytes mime = Inr written
       | Some e \<Rightarrow> ext = e \<and> written = bytes"
      by blast
    then have "fs w' = AList.update p (File (Bytes written)) (fs w)
        \<and> (case guess_extension env mime of
              None \<Rightarrow> convert_to_wav self (int_max_str_digits env) bytes mime = Inr written
            | Some ext \<Rightarrow> written = bytes)"
      by (auto simp: store_def split: option.splits)
    then show ?thesis by blast
  qed
  have raises: "fst (generate_audio_feedback self env critique style w) = Inl e
              \<and> fs (snd (generate_audio_feedback self env critique style w)) = fs w"
    if "guess_extension env mime = None
          \<and> convert_to_wav self (int_max_str_digits env) bytes mime = Inl e" for e
    using that by (simp add: eq write_audio_Inl_wav)
  from reads eq written raises show ?thesis by blast
qed

theorem stream_stops_at_first_audio_chunk_witness:
  "stream_reads (snd (generate_audio_feedback example_agent example_env ''Fine'' ''upbeat''
      example_world)) = 2"
proof -
  have s: "generate_content_stream example_env (Suc (tick example_world))
             (voice_instruction ''upbeat'' @ nl @ nl @ ''Fine'')
           = map Inr [empty_chunk] @ Inr (audio_chunk [1, 2] ''audio/L16;rate=24000'')
               # [Inr (audio_chunk [3, 4] ''audio/L16;rate=24000'')]"
    by (simp add: example_env_def)
  have k: "\<forall>x \<in> set [empty_chunk]. inline_audio x = None"
    by (simp add: inline_audio_def empty_chunk_def)
  have a: "inline_audio (audio_chunk [1, 2] ''audio/L16;rate=24000'')
             = Some ([1, 2], ''audio/L16;rate=24000'')"
    by (simp add: inline_audio_def audio_chunk_def)
  have "stream_reads (snd (generate_audio_feedback example_agent example_env ''Fine'' ''upbeat''
          example_world)) = stream_reads example_world + length [empty_chunk] + 1"
    using stream_stops_at_first_audio_chunk [OF s k a, of example_agent] by (rule conjunct1)
  moreover have "stream_reads example_world = 0" by (simp add: example_world_def)
  ultimately show ?thesis by simp
qed

text \<open>The claim as written has the accepted chunk's bytes alone in the file. For raw PCM,
  whose content type has no known extension, the file holds the 44 header bytes before
  them.\<close>

theorem first_audio_chunk_written_with_header:
  "inline_audio (audio_chunk [1, 2] ''audio/L16;rate=24000'')
     = Some ([1, 2], ''audio/L16;rate=24000'')
   \<and> fst (generate_audio_feedback example_agent example_env ''Fine'' ''upbeat'' example_world)
     = Inr [''agent'', ''feedback'', ''business_analysis_20250102_030405.wav'']
   \<and> lookup (snd (generate_audio_feedback example_agent example_env ''Fine'' ''upbeat''
        example_world))
       [''agent'', ''feedback'', ''business_analysis_20250102_030405.wav''] =
     Some (File (Bytes
       [82, 73, 70, 70, 38, 0, 0, 0, 87, 65, 86, 69, 102, 109, 116, 32, 16, 0, 0, 0, 1, 0,
        1, 0, 192, 93, 0, 0, 128, 187, 0, 0, 2, 0, 16, 0, 100, 97, 116, 97, 2, 0, 0, 0,
        1, 2]))"
  by code_simp

subsection \<open>The steps of one idea\<close>

lemma lookup_updates [simp]:
  "lookup (w\<lparr>tick := t\<rparr>) = lookup w"
  "lookup (w\<lparr>stream_reads := n\<rparr>) = lookup w"
  "lookup (w\<lparr>sent := m\<rparr>) = lookup w"
  by (simp_all add: lookup_def fun_eq_iff)

lemma is_dir_updates [simp]:
  "is_dir (w\<lparr>tick := t\<rparr>) = is_dir w"
  "is_dir (w\<lparr>stream_reads := n\<rparr>) = is_dir w"
  "is_dir (w\<lparr>sent := m\<rparr>) = is_dir w"
  by (simp_all add: is_dir_def fun_eq_iff)

lemma lookup_store_fun: "lookup (store p n w) = (lookup w)(p \<mapsto> n)"
  by (simp add: fun_eq_iff lookup_store)

lemma lookup_delete_fun: "lookup (w\<lparr>fs := AList.delete p (fs w)\<rparr>) = (lookup w)(p := None)"
  by (simp add: fun_eq_iff lookup_delete)

lemma analyze_business_idea_Inr:
  assumes "analyze_business_idea self env idea w = (Inr a, w')"
  shows "w' = w\<lparr>tick := Suc (tick w)\<rparr>"
  using assms
  by (auto simp: analyze_business_idea_def Let_def split: sum.splits if_splits)

lemma generate_filename_suggestion_snd:
  "snd (generate_filename_suggestion self env idea w) = w\<lparr>tick := Suc (tick w)\<rparr>"
  by (simp add: generate_filename_suggestion_def Let_def split: sum.splits)

lemma consume_stream_Inr:
  "consume_stream self env fn s w = (Inr p, w') \<Longrightarrow>
   \<exists>name written n. p = output_dir self @ [name]
      \<and> w' = store p (File (Bytes written)) (w\<lparr>stream_reads := n\<rparr>)"
proof (induction self env fn s w rule: consume_stream.induct)
  case (1 self env fn w)
  then show ?case by simp
next
  case (2 self env fn e rest w)
  then show ?case by simp
next
  case (3 self env fn c rest w)
  show ?case
  proof (cases "inline_audio c")
    case None
    with 3 obtain name written n where
      "p = output_dir self @ [name]"
      "w' = store p (File (Bytes written)) (w\<lparr>stream_reads := Suc (stream_reads w)\<rparr>\<lparr>stream_reads := n\<rparr>)"
      by (auto simp: Let_def)
    then show ?thesis by auto
  next
    case (Some inline)
    obtain bytes mime where inline: "inline = (bytes, mime)" by (cases inline)
    from 3(2) Some inline
    have "write_audio self env fn (bytes, mime) (w\<lparr>stream_reads := Suc (stream_reads w)\<rparr>) = (Inr p, w')"
      by (simp add: Let_def)
    from write_audio_Inr [OF this] show ?thesis by blast
  qed
qed

lemma generate_audio_feedback_Inr:
  assumes "generate_audio_feedback self env critique style w = (Inr p, w')"
  shows "\<exists>name written n. p = output_dir self @ [name]
      \<and> w' = store p (File (Bytes written)) (w\<lparr>tick := Suc (Suc (tick w)), stream_reads := n\<rparr>)"
proof -
  from assms obtain name written n where
    "p = output_dir self @ [name]"
    "w' = store p (File (Bytes written)) (w\<lparr>tick := Suc (Suc (tick w))\<rparr>\<lparr>stream_reads := n\<rparr>)"
    unfolding generate_audio_feedback_def Let_def by (blast dest: consume_stream_Inr)
  then show ?thesis by auto
qed

lemma generate_markdown_file_Inr:
  assumes "generate_markdown_file self env critique idea base folder w = (Inr md, w')"
  shows "md = folder @ [base @ ''.md'']"
    and "\<exists>c. w' = store md (File c) (w\<lparr>tick := Suc (tick w)\<rparr>)"
    and "\<not> is_dir w md"
  using assms
  by (auto simp: generate_markdown_file_def Let_def bind_w_Inr dest: write_file_Inr)

lemma generate_pdf_file_Inr:
  assumes "generate_pdf_file self env critique idea base folder w = (Inr pdf, w')"
  shows "pdf = folder @ [base @ ''.pdf'']"
    and "\<exists>c. w' = store pdf (File c) (w\<lparr>tick := Suc (Suc (tick w))\<rparr>)"
    and "\<not> is_dir w pdf"
  using assms
  by (auto simp: generate_pdf_file_def Let_def bind_w_Inr split: sum.splits dest: write_file_Inr)

lemma send_email_fs: "fs (snd (send_email_with_attachments self env critique p1 p2 p3 w)) = fs w"
  by (simp add: send_email_with_attachments_def Let_def split: sum.splits)

lemma send_email_no_key:
  "text_of (resend_api_key self) = [] \<Longrightarrow>
   send_email_with_attachments self env critique p1 p2 p3 w = (False, w)"
  by (simp add: send_email_with_attachments_def)

lemma move_idea_to_evaluated_Inr:
  assumes "move_idea_to_evaluated self p w = (Inr q, w')"
  shows "if path_exists w p \<and> contains ''pending'' (str_path p)
         then q = evaluated_dir self @ [path_name p]
              \<and> (\<exists>c. lookup w p = Some (File c)
                     \<and> w' = store q (File c) (w\<lparr>fs := AList.delete p (fs w)\<rparr>))
              \<and> \<not> is_dir w q
         else q = p \<and> w' = w"
  using assms
  by (auto simp: move_idea_to_evaluated_def Let_def bind_w_Inr dest: rename_Inr)

subsection \<open>Steps that succeed\<close>

lemma mkdir_exist_ok_fresh:
  "\<not> path_exists w p \<Longrightarrow> is_dir w (butlast p) \<Longrightarrow> mkdir_exist_ok p w = (Inr (), store p Dir w)"
  by (simp add: mkdir_exist_ok_def path_exists_def is_dir_def)

lemma write_file_ok:
  "\<not> is_dir w p \<Longrightarrow> is_dir w (butlast p) \<Longrightarrow> write_file p c w = (Inr (), store p (File c) w)"
  by (simp add: write_file_def)

lemma rename_ok:
  "lookup w src = Some (File c) \<Longrightarrow> \<not> is_dir w dst \<Longrightarrow> is_dir w (butlast dst) \<Longrightarrow>
   rename src dst w = (Inr (), store dst (File c) (w\<lparr>fs := AList.delete src (fs w)\<rparr>))"
  by (simp add: rename_def)

lemma load_system_prompt_tick [simp]:
  "load_system_prompt self env (w\<lparr>tick := t\<rparr>) = load_system_prompt self env w"
  by (simp add: load_system_prompt_def path_exists_def read_text_def read_file_def Let_def)

lemma analyze_business_idea_ok:
  assumes "load_system_prompt self env w = Inr sp"
    and "generate_content env (tick w)
           (sp @ nl @ nl @ ''Here is the business idea for you to analyze:'' @ nl @ nl @ idea)
         = Inr (Some a)"
    and "a \<noteq> []"
  shows "analyze_business_idea self env idea w = (Inr a, w\<lparr>tick := Suc (tick w)\<rparr>)"
  using assms by (simp add: analyze_business_idea_def Let_def text_of_def)

lemma write_audio_ok:
  assumes "(guess_extension env mime = Some ext \<and> written = bytes)
           \<or> (guess_extension env mime = None \<and> ext = ''.wav''
               \<and> convert_to_wav self (int_max_str_digits env) bytes mime = Inr written)"
    and "\<not> is_dir w (output_dir self @ [replace ''.wav'' [] fn @ ext])"
    and "is_dir w (output_dir self)"
  shows "write_audio self env fn (bytes, mime) w =
           (Inr (output_dir self @ [replace ''.wav'' [] fn @ ext]),
            store (output_dir self @ [replace ''.wav'' [] fn @ ext]) (File (Bytes written)) w)"
  using assms(1)
proof
  assume "guess_extension env mime = Some ext \<and> written = bytes"
  then show ?thesis using assms(2,3)
    by (simp add: write_audio_def save_binary_file_def Let_def write_file_ok)
next
  assume "guess_extension env mime = None \<and> ext = ''.wav''
               \<and> convert_to_wav self (int_max_str_digits env) bytes mime = Inr written"
  then show ?thesis using assms(2,3)
    by (simp add: write_audio_def save_binary_file_def Let_def write_file_ok)
qed

lemma email_step_fs: "fs (snd (email_step self env se a p1 p2 p3 w)) = fs w"
  by (simp add: email_step_def send_email_fs)

lemma email_step_lookup: "lookup (snd (email_step self env se a p1 p2 p3 w)) = lookup w"
  by (simp add: lookup_def fun_eq_iff email_step_fs)

lemma email_step_off:
  "(se \<longrightarrow> text_of (resend_api_key self) = []) \<Longrightarrow> email_step self env se a p1 p2 p3 w = (False, w)"
  by (simp add: email_step_def send_email_no_key)

lemma contains_append: "contains sub (pre @ sub @ post)"
proof (induction pre)
  case Nil
  have "startswith (sub @ post) sub" by (simp add: startswith_def)
  then show ?case by (cases "sub @ post") auto
next
  case (Cons c pre)
  then show ?case by simp
qed

lemma children_empty: "children w d = [] \<Longrightarrow> lookup w (d @ [x]) = None"
proof (rule ccontr)
  assume e: "children w d = []" and n: "lookup w (d @ [x]) \<noteq> None"
  then have "d @ [x] \<in> fst ` set (fs w)"
    by (auto simp: lookup_def map_of_eq_None_iff)
  with n have "d @ [x] \<in> set (children w d)" by (simp add: children_def)
  with e show False by simp
qed


lemma mkdir_exist_ok_there: "is_dir w p \<Longrightarrow> mkdir_exist_ok p w = (Inr (), w)"
  by (simp add: mkdir_exist_ok_def)

subsection \<open>The pending queue\<close>

lemma pending_paths_updates [simp]:
  "pending_paths self (w\<lparr>tick := t\<rparr>) = pending_paths self w"
  "pending_paths self (w\<lparr>stream_reads := n\<rparr>) = pending_paths self w"
  "pending_paths self (w\<lparr>sent := m\<rparr>) = pending_paths self w"
  by (simp_all add: pending_paths_def)

lemma pending_paths_store:
  "butlast k \<noteq> pending_dir self \<Longrightarrow> pending_paths self (store k n w) = pending_paths self w"
  by (simp add: pending_paths_def store_def update_keys)

lemma pending_paths_delete:
  "pending_paths self (w\<lparr>fs := AList.delete k (fs w)\<rparr>) = removeAll k (pending_paths self w)"
  by (simp add: pending_paths_def delete_keys removeAll_filter_not_eq conj_commute)

lemma pending_paths_delete_other:
  "butlast k \<noteq> pending_dir self \<Longrightarrow>
   pending_paths self (w\<lparr>fs := AList.delete k (fs w)\<rparr>) = pending_paths self w"
proof -
  assume "butlast k \<noteq> pending_dir self"
  then have "k \<notin> set (pending_paths self w)" by (auto simp: pending_paths_def)
  then show ?thesis by (simp add: pending_paths_delete)
qed

lemma pending_paths_fs: "fs v = fs w \<Longrightarrow> pending_paths self v = pending_paths self w"
  by (simp add: pending_paths_def)

lemma get_pending_ideas_paths:
  "get_pending_ideas self w =
     (if path_exists w (pending_dir self) then map path_name (pending_paths self w) else [])"
  by (simp add: get_pending_ideas_def pending_paths_def filter_map comp_def)

lemma pending_names_removeAll:
  assumes "\<forall>k \<in> set ks. k \<noteq> [] \<and> butlast k = d"
  shows "map path_name (removeAll (d @ [name]) ks) = removeAll name (map path_name ks)"
  using assms
proof (induction ks)
  case Nil
  show ?case by simp
next
  case (Cons k ks)
  then have k: "k \<noteq> []" "butlast k = d" by simp_all
  from Cons have IH: "map path_name (removeAll (d @ [name]) ks) = removeAll name (map path_name ks)"
    by simp
  have kd: "k = d @ [last k]" using append_butlast_last_id [of k] k by simp
  show ?case
  proof (cases "last k = name")
    case True
    with kd have "k = d @ [name]" by simp
    moreover from True k(1) have "path_name k = name" by (simp add: path_name_def)
    ultimately show ?thesis using IH by simp
  next
    case False
    with kd have "k \<noteq> d @ [name]" by auto
    moreover from False k(1) have "path_name k \<noteq> name" by (simp add: path_name_def)
    ultimately show ?thesis using IH by simp
  qed
qed

lemma get_pending_ideas_removed:
  assumes "pending_paths self w' = removeAll (pending_dir self @ [name]) (pending_paths self w)"
    and "lookup w' (pending_dir self) = lookup w (pending_dir self)"
  shows "get_pending_ideas self w' = removeAll name (get_pending_ideas self w)"
proof -
  have "\<forall>k \<in> set (pending_paths self w). k \<noteq> [] \<and> butlast k = pending_dir self"
    by (simp add: pending_paths_def)
  from pending_names_removeAll [OF this, of name] assms show ?thesis
    by (simp add: get_pending_ideas_paths path_exists_def)
qed

subsection \<open>One idea, step by step\<close>

text \<open>A run from the pending queue in which every collaborator answers, the folder is
  new or a directory already, and no directory is in the way of a file. The worlds between
  the steps are written out; the last one is described by its lookup function.\<close>

lemma process_business_idea_succeeds:
  assumes sd: "standard_dirs self"
    and sp: "load_system_prompt self env w = Inr sp"
    and an: "generate_content env (tick w + 1)
               (sp @ nl @ nl @ ''Here is the business idea for you to analyze:'' @ nl @ nl @ idea)
             = Inr (Some a)" "a \<noteq> []"
    and od: "is_dir w (output_dir self)"
    and folder: "is_dir w (idea_folder self env idea w) \<or> \<not> path_exists w (idea_folder self env idea w)"
    and targets: "\<forall>x \<in> set [''_audio.wav'', ''_analysis.md'', ''_analysis.pdf'', ''_analysis.txt''].
        \<not> is_dir w (idea_folder self env idea w @ [idea_slug self env idea w @ x])"
    and stream: "generate_content_stream env (tick w + 5) (voice_instruction style @ nl @ nl @ a)
                   = map Inr pre @ Inr c # rest"
      "\<forall>x \<in> set pre. inline_audio x = None" "inline_audio c = Some (bytes, mime)"
    and audio: "(guess_extension env mime = Some ext \<and> written = bytes)
           \<or> (guess_extension env mime = None \<and> ext = ''.wav''
               \<and> convert_to_wav self (int_max_str_digits env) bytes mime = Inr written)"
    and tmp: "audio_target self env (w\<lparr>tick := tick w + 4\<rparr>) ext \<noteq> idea_folder self env idea w"
      "\<not> is_dir w (audio_target self env (w\<lparr>tick := tick w + 4\<rparr>) ext)"
    and pdf: "build_pdf env (tick w + 8) (strftime_long (now env (tick w + 7))) idea a = Inr pdfb"
    and inp: "lookup w (pending_dir self @ [name]) = Some (File cnt)"
    and ev: "is_dir w (evaluated_dir self)" "\<not> is_dir w (evaluated_dir self @ [name])"
  shows "\<exists>flag w'.
      process_business_idea self env idea style se (Some (pending_dir self @ [name])) w =
        (Inr \<lparr>timestamp = isoformat (now env (tick w)), business_idea = idea,
              voice_style = style, analysis_text = a,
              audio_file = idea_folder self env idea w @ [idea_slug self env idea w @ ''_audio.wav''],
              email_sent = flag,
              markdown_file = idea_folder self env idea w @ [idea_slug self env idea w @ ''_analysis.md''],
              pdf_file = idea_folder self env idea w @ [idea_slug self env idea w @ ''_analysis.pdf''],
              text_file = idea_folder self env idea w @ [idea_slug self env idea w @ ''_analysis.txt''],
              moved_to_evaluated = Some (evaluated_dir self @ [name])\<rparr>, w')
    \<and> lookup w' = (lookup w)
        (idea_folder self env idea w \<mapsto> Dir,
         audio_target self env (w\<lparr>tick := tick w + 4\<rparr>) ext := None,
         idea_folder self env idea w @ [idea_slug self env idea w @ ''_audio.wav'']
           \<mapsto> File (Bytes written),
         idea_folder self env idea w @ [idea_slug self env idea w @ ''_analysis.md'']
           \<mapsto> File (Text (markdown_content (strftime_long (now env (tick w + 6))) idea a)),
         idea_folder self env idea w @ [idea_slug self env idea w @ ''_analysis.pdf'']
           \<mapsto> File (Bytes pdfb),
         idea_folder self env idea w @ [idea_slug self env idea w @ ''_analysis.txt'']
           \<mapsto> File (Text a),
         pending_dir self @ [name] := None,
         evaluated_dir self @ [name] \<mapsto> File cnt)
    \<and> get_pending_ideas self w' = removeAll name (get_pending_ideas self w)
    \<and> ((se \<longrightarrow> text_of (resend_api_key self) = []) \<longrightarrow> flag = False \<and> sent w' = sent w)"
proof -
  define slug where "slug = idea_slug self env idea w"
  define X where "X = folder_name (strftime_stamp (now env (Suc (Suc (Suc (tick w)))))) slug"
  define Y where "Y = replace ''.wav'' []
      (''business_analysis_'' @ strftime_stamp (now env (Suc (Suc (Suc (Suc (tick w)))))) @ ''.wav'') @ ext"
  let ?F = "[''agent'', ''feedback'', X]"
  let ?T = "[''agent'', ''feedback'', Y]"
  let ?A = "[''agent'', ''feedback'', X, slug @ ''_audio.wav'']"
  let ?MD = "[''agent'', ''feedback'', X, slug @ ''_analysis.md'']"
  let ?PDF = "[''agent'', ''feedback'', X, slug @ ''_analysis.pdf'']"
  let ?TXT = "[''agent'', ''feedback'', X, slug @ ''_analysis.txt'']"
  let ?P = "[''agent'', ''user-ideas'', ''pending'', name]"
  let ?E = "[''agent'', ''user-ideas'', ''evaluated'', name]"
  have dirs: "output_dir self = [''agent'', ''feedback'']"
    "pending_dir self = [''agent'', ''user-ideas'', ''pending'']"
    "evaluated_dir self = [''agent'', ''user-ideas'', ''evaluated'']"
    using sd by (simp_all add: standard_dirs_def)
  have F: "idea_folder self env idea w = ?F"
    by (simp add: idea_folder_def dirs X_def slug_def)
  have T: "audio_target self env (w\<lparr>tick := tick w + 4\<rparr>) ext = ?T"
    by (simp add: audio_target_def dirs Y_def eval_nat_numeral)
  have XY: "X \<noteq> Y" using tmp(1) unfolding F T by simp
  have under: "lookup w ?A \<noteq> Some Dir" "lookup w ?MD \<noteq> Some Dir" "lookup w ?PDF \<noteq> Some Dir"
    "lookup w ?TXT \<noteq> Some Dir"
    using targets unfolding F slug_def [symmetric] by (simp_all add: is_dir_def)
  have cF: "lookup w ?F = Some Dir \<or> lookup w ?F = None"
    using folder unfolding F by (simp add: path_exists_def is_dir_def)
  have dO: "lookup w [''agent'', ''feedback''] = Some Dir"
    using od by (simp add: is_dir_def dirs)
  have dE: "lookup w [''agent'', ''user-ideas'', ''evaluated''] = Some Dir"
    using ev(1) by (simp add: is_dir_def dirs)
  have nT: "lookup w ?T \<noteq> Some Dir" using tmp(2) unfolding T by (simp add: is_dir_def)
  have nE: "lookup w ?E \<noteq> Some Dir" using ev(2) by (simp add: dirs is_dir_def)
  have fP: "lookup w ?P = Some (File cnt)" using inp by (simp add: dirs)
  \<comment> \<open>the critique and the suggestion\<close>
  have s1: "analyze_business_idea self env idea (w\<lparr>tick := Suc (tick w)\<rparr>)
              = (Inr a, w\<lparr>tick := Suc (Suc (tick w))\<rparr>)"
    using analyze_business_idea_ok [of self env "w\<lparr>tick := Suc (tick w)\<rparr>" sp idea a] sp an
    by simp
  have s2: "generate_filename_suggestion self env idea (w\<lparr>tick := Suc (Suc (tick w))\<rparr>)
              = (slug, w\<lparr>tick := Suc (Suc (Suc (tick w)))\<rparr>)"
    by (rule prod_eqI) (simp_all add: slug_def idea_slug_def generate_filename_suggestion_snd)
  \<comment> \<open>the folder\<close>
  define w3 where "w3 = w\<lparr>tick := Suc (Suc (Suc (Suc (tick w))))\<rparr>"
  define w4 where "w4 = (if is_dir w3 ?F then w3 else store ?F Dir w3)"
  have L3: "lookup w3 = lookup w" by (simp add: w3_def)
  have K3: "pending_paths self w3 = pending_paths self w" by (simp add: w3_def)
  have s3: "mkdir_exist_ok ?F w3 = (Inr (), w4)"
  proof (cases "is_dir w3 ?F")
    case True
    then show ?thesis by (simp add: w4_def mkdir_exist_ok_there)
  next
    case False
    then have "lookup w ?F = None" using cF by (simp add: is_dir_def L3)
    then have "mkdir_exist_ok ?F w3 = (Inr (), store ?F Dir w3)"
      by (intro mkdir_exist_ok_fresh) (simp_all add: path_exists_def is_dir_def L3 dO)
    with False show ?thesis by (simp add: w4_def)
  qed
  have L4: "lookup w4 = (lookup w)(?F \<mapsto> Dir)"
    by (auto simp: w4_def lookup_store_fun L3 is_dir_def fun_eq_iff)
  have K4: "pending_paths self w4 = pending_paths self w"
    by (simp add: w4_def pending_paths_store dirs K3)
  have t4: "tick w4 = Suc (Suc (Suc (Suc (tick w))))" by (simp add: w4_def w3_def)
  have S4: "sent w4 = sent w" by (simp add: w4_def w3_def)
  \<comment> \<open>the audio\<close>
  define w4' where "w4' = w4\<lparr>tick := Suc (Suc (tick w4)),
      stream_reads := stream_reads w4 + length pre + 1\<rparr>"
  define w5 where "w5 = store ?T (File (Bytes written)) w4'"
  have L4': "lookup w4' = (lookup w)(?F \<mapsto> Dir)" by (simp add: w4'_def L4)
  have "generate_audio_feedback self env a style w4 =
          write_audio self env
            (''business_analysis_'' @ strftime_stamp (now env (tick w4)) @ ''.wav'')
            (bytes, mime) w4'"
    unfolding w4'_def
    by (rule generate_audio_feedback_first) (use stream in \<open>simp_all add: t4 eval_nat_numeral\<close>)
  also have "\<dots> = (Inr ?T, w5)"
    using write_audio_ok [OF audio, of w4'
        "''business_analysis_'' @ strftime_stamp (now env (tick w4)) @ ''.wav''"]
      XY nT dO
    by (simp add: dirs is_dir_def L4' Y_def t4 w5_def)
  finally have s4: "generate_audio_feedback self env a style w4 = (Inr ?T, w5)" .
  have L5: "lookup w5 = (lookup w)(?F \<mapsto> Dir, ?T \<mapsto> File (Bytes written))"
    by (simp add: w5_def lookup_store_fun L4')
  have K5: "pending_paths self w5 = pending_paths self w"
    by (simp add: w5_def w4'_def pending_paths_store dirs K4)
  have t5: "tick w5 = Suc (Suc (Suc (Suc (Suc (Suc (tick w))))))"
    by (simp add: w5_def w4'_def t4)
  have S5: "sent w5 = sent w" by (simp add: w5_def w4'_def S4)
  define w6 where "w6 = store ?A (File (Bytes written)) (w5\<lparr>fs := AList.delete ?T (fs w5)\<rparr>)"
  have s5: "rename ?T ?A w5 = (Inr (), w6)"
    unfolding w6_def
    by (rule rename_ok) (use under(1) XY in \<open>simp_all add: is_dir_def L5\<close>)
  have L6: "lookup w6 = (lookup w)(?F \<mapsto> Dir, ?T := None, ?A \<mapsto> File (Bytes written))"
    by (simp add: w6_def lookup_store_fun lookup_delete_fun L5)
  have K6: "pending_paths self w6 = pending_paths self w"
    by (simp add: w6_def pending_paths_store pending_paths_delete_other dirs K5)
  have t6: "tick w6 = Suc (Suc (Suc (Suc (Suc (Suc (tick w))))))"
    by (simp add: w6_def t5)
  have S6: "sent w6 = sent w" by (simp add: w6_def S5 store_def)
  \<comment> \<open>the documents\<close>
  let ?mdc = "Text (markdown_content (strftime_long (now env (tick w + 6))) idea a)"
  define w7 where "w7 = store ?MD (File ?mdc) (w6\<lparr>tick := Suc (tick w6)\<rparr>)"
  have s6: "generate_markdown_file self env a idea (slug @ ''_analysis'') ?F w6 = (Inr ?MD, w7)"
    using under(2) XY
    by (simp add: generate_markdown_file_def Let_def write_file_ok is_dir_def L6 t6 w7_def
          eval_nat_numeral)
  have L7: "lookup w7 = (lookup w)(?F \<mapsto> Dir, ?T := None, ?A \<mapsto> File (Bytes written),
      ?MD \<mapsto> File ?mdc)"
    by (simp add: w7_def lookup_store_fun L6)
  have K7: "pending_paths self w7 = pending_paths self w"
    by (simp add: w7_def pending_paths_store dirs K6)
  have t7: "tick w7 = Suc (Suc (Suc (Suc (Suc (Suc (Suc (tick w)))))))"
    by (simp add: w7_def t6)
  have S7: "sent w7 = sent w" by (simp add: w7_def S6)
  define w8 where "w8 = store ?PDF (File (Bytes pdfb)) (w7\<lparr>tick := Suc (Suc (tick w7))\<rparr>)"
  have s7: "generate_pdf_file self env a idea (slug @ ''_analysis'') ?F w7 = (Inr ?PDF, w8)"
    using under(3) XY pdf
    by (simp add: generate_pdf_file_def Let_def write_file_ok is_dir_def L7 t7 w8_def
          eval_nat_numeral)
  have L8: "lookup w8 = (lookup w)(?F \<mapsto> Dir, ?T := None, ?A \<mapsto> File (Bytes written),
      ?MD \<mapsto> File ?mdc, ?PDF \<mapsto> File (Bytes pdfb))"
    by (simp add: w8_def lookup_store_fun L7)
  have K8: "pending_paths self w8 = pending_paths self w"
    by (simp add: w8_def pending_paths_store dirs K7)
  have S8: "sent w8 = sent w" by (simp add: w8_def S7)
  define w9 where "w9 = store ?TXT (File (Text a)) w8"
  have s8: "write_file ?TXT (Text a) w8 = (Inr (), w9)"
    unfolding w9_def
    by (rule write_file_ok) (use under(4) XY in \<open>simp_all add: is_dir_def L8\<close>)
  have L9: "lookup w9 = (lookup w)(?F \<mapsto> Dir, ?T := None, ?A \<mapsto> File (Bytes written),
      ?MD \<mapsto> File ?mdc, ?PDF \<mapsto> File (Bytes pdfb), ?TXT \<mapsto> File (Text a))"
    by (simp add: w9_def lookup_store_fun L8)
  have K9: "pending_paths self w9 = pending_paths self w"
    by (simp add: w9_def pending_paths_store dirs K8)
  have S9: "sent w9 = sent w" by (simp add: w9_def S8)
  \<comment> \<open>the e-mail and the archive\<close>
  obtain flag w10 where s9: "email_step self env se a ?A ?MD ?PDF w9 = (flag, w10)"
    by (cases "email_step self env se a ?A ?MD ?PDF w9")
  have L10: "lookup w10 = lookup w9"
    using email_step_lookup [of self env se a ?A ?MD ?PDF w9] by (simp add: s9)
  have "fs w10 = fs w9"
    using email_step_fs [of self env se a ?A ?MD ?PDF w9] by (simp add: s9)
  then have K10: "pending_paths self w10 = pending_paths self w"
    using K9 by (simp add: pending_paths_fs [of w10 w9])
  define w12 where "w12 = store ?E (File cnt) (w10\<lparr>fs := AList.delete ?P (fs w10)\<rparr>)"
  have c: "contains ''pending'' (str_path ?P)"
    using contains_append [of "''pending''" "''agent/user-ideas/''" "''/'' @ name"]
    by (simp add: str_path_def)
  have "rename ?P ?E w10 = (Inr (), w12)"
    unfolding w12_def
    by (rule rename_ok) (use fP nE dE in \<open>simp_all add: is_dir_def L10 L9\<close>)
  then have s10: "archive_step self (Some ?P) w10 = (Inr (Some ?E), w12)"
    using c fP
    by (simp add: archive_step_def move_idea_to_evaluated_def path_exists_def L10 L9 dirs
          path_name_def Let_def)
  have L12: "lookup w12 = (lookup w)(?F \<mapsto> Dir, ?T := None, ?A \<mapsto> File (Bytes written),
      ?MD \<mapsto> File ?mdc, ?PDF \<mapsto> File (Bytes pdfb), ?TXT \<mapsto> File (Text a),
      ?P := None, ?E \<mapsto> File cnt)"
    by (simp add: w12_def lookup_store_fun lookup_delete_fun L10 L9)
  have K12: "pending_paths self w12 = removeAll ?P (pending_paths self w)"
    by (simp add: w12_def pending_paths_store pending_paths_delete dirs K10)
  have "lookup w12 (pending_dir self) = lookup w (pending_dir self)"
    by (simp add: L12 dirs)
  with K12 have Q: "get_pending_ideas self w12 = removeAll name (get_pending_ideas self w)"
    by (intro get_pending_ideas_removed) (simp_all add: dirs)
  have run: "process_business_idea self env idea style se (Some ?P) w =
        (Inr \<lparr>timestamp = isoformat (now env (tick w)), business_idea = idea,
              voice_style = style, analysis_text = a, audio_file = ?A, email_sent = flag,
              markdown_file = ?MD, pdf_file = ?PDF, text_file = ?TXT,
              moved_to_evaluated = Some ?E\<rparr>, w12)"
    unfolding process_business_idea_def Let_def
    by (simp add: s1 s2 dirs X_def [symmetric] w3_def [symmetric] s3 s4 s5 s6 s7 s8 s9 s10)
  have off: "flag = False \<and> sent w12 = sent w" if "se \<longrightarrow> text_of (resend_api_key self) = []"
  proof -
    from email_step_off [OF that, of env a ?A ?MD ?PDF w9] s9
    have "flag = False" "w10 = w9" by simp_all
    then show ?thesis by (simp add: w12_def S9 store_def)
  qed
  show ?thesis
    unfolding F T dirs slug_def [symmetric]
    using run L12 off Q [unfolded dirs]
    by (intro exI [of _ flag] exI [of _ w12]) (simp add: eval_nat_numeral)
qed

subsection \<open>Directories and their entries\<close>

lemma set_dirs_of: "set (dirs_of w) = {p. lookup w p = Some Dir}"
  by (auto simp: dirs_of_def lookup_def dest: map_of_SomeD intro: rev_image_eqI)

lemma set_children:
  "set (children w d) = {p. p \<noteq> [] \<and> butlast p = d \<and> lookup w p \<noteq> None}"
  by (auto simp: children_def lookup_def map_of_eq_None_iff)

lemma distinct_children: "distinct (children w d)"
  by (simp add: children_def)

subsection \<open>The temporary audio file is not the folder\<close>

lemma hd_replace_wav: "c \<noteq> CHR ''.'' \<Longrightarrow> hd (replace ''.wav'' [] (c # s) @ ext) = c"
  by (subst replace.simps) (simp add: startswith_def)

lemma digit_char_not_b: "digit_char n \<noteq> CHR ''b''"
proof
  assume "digit_char n = CHR ''b''"
  then have "of_char (char_of (48 + n mod 10) :: char) = (of_char CHR ''b'' :: nat)"
    by (simp add: digit_char_def)
  then show False by simp
qed

lemma audio_target_not_folder: "audio_target self env v ext \<noteq> idea_folder self env idea w"
proof
  assume "audio_target self env v ext = idea_folder self env idea w"
  then have "replace ''.wav'' []
               (''business_analysis_'' @ strftime_stamp (now env (tick v)) @ ''.wav'') @ ext
             = folder_name (strftime_stamp (now env (Suc (Suc (Suc (tick w))))))
                 (idea_slug self env idea w)"
    by (simp add: audio_target_def idea_folder_def)
  then have "hd (replace ''.wav'' []
               (CHR ''b'' # ''usiness_analysis_'' @ strftime_stamp (now env (tick v)) @ ''.wav'') @ ext)
             = hd (folder_name (strftime_stamp (now env (Suc (Suc (Suc (tick w))))))
                 (idea_slug self env idea w))"
    by simp
  moreover have "hd (replace ''.wav'' []
               (CHR ''b'' # ''usiness_analysis_'' @ strftime_stamp (now env (tick v)) @ ''.wav'') @ ext)
             = CHR ''b''"
    by (rule hd_replace_wav) simp
  moreover have "hd (folder_name (strftime_stamp (now env (Suc (Suc (Suc (tick w))))))
                 (idea_slug self env idea w))
             = digit_char (year (now env (Suc (Suc (Suc (tick w))))) div 1000)"
    by (simp add: folder_name_def strftime_stamp_def pad4_def)
  ultimately have "CHR ''b'' = digit_char (year (now env (Suc (Suc (Suc (tick w))))) div 1000)"
    by simp
  then show False using digit_char_not_b by metis
qed

subsection \<open>The constructor and the batch of one\<close>

lemma init_agent_Inr:
  assumes "init_agent env w0 = (Inr self, w)"
  shows "standard_dirs self" and "is_dir w (output_dir self)" and "is_dir w (evaluated_dir self)"
    and "resend_api_key self = getenv env ''RESEND_API_KEY''"
proof -
  let ?s = "\<lparr>gemini_api_key = text_of (getenv env ''GEMINI_API_KEY''),
                    resend_api_key = getenv env ''RESEND_API_KEY'',
                    user_email = (case getenv env ''USER_EMAIL'' of
                                    None \<Rightarrow> ''daniel@danielrosehill.com'' | Some u \<Rightarrow> u),
                    output_dir = [''agent'', ''feedback''],
                    pending_dir = [''agent'', ''user-ideas'', ''pending''],
                    evaluated_dir = [''agent'', ''user-ideas'', ''evaluated'']\<rparr>"
  from assms obtain w1 where
    1: "mkdir_exist_ok [''agent'', ''feedback''] w0 = (Inr (), w1)"
    and 2: "mkdir_exist_ok [''agent'', ''user-ideas'', ''evaluated''] w1 = (Inr (), w)"
    and s: "self = ?s"
    by (auto simp: init_agent_def Let_def bind_w_Inr split: if_splits)
  show "standard_dirs self" by (simp add: s standard_dirs_def)
  show "resend_api_key self = getenv env ''RESEND_API_KEY''" by (simp add: s)
  show "is_dir w (evaluated_dir self)" using mkdir_exist_ok_Inr(2) [OF 2] by (simp add: s)
  have "is_dir w1 [''agent'', ''feedback'']" by (rule mkdir_exist_ok_Inr(2) [OF 1])
  then show "is_dir w (output_dir self)"
    using mkdir_exist_ok_Inr(1) [OF 2] by (auto simp: s is_dir_def split: if_splits)
qed

lemma read_text_file:
  "read_text env p w = Inr t \<Longrightarrow> \<exists>cnt. lookup w p = Some (File cnt)"
  by (auto simp: read_text_def read_file_def bind_err_Inr split: option.splits node.splits)

lemma main_one:
  assumes "init_agent env w0 = (Inr self, w)"
    and "get_pending_ideas self w = [name]"
    and "read_text env (pending_dir self @ [name]) w = Inr text" "strip text \<noteq> []"
    and "process_business_idea self env (strip text) (arg_voice_style a) (\<not> arg_no_email a)
           (Some (pending_dir self @ [name])) w = (Inr r, w')"
  shows "main env a w0 = (Summary 1 0, w')"
  using assms by (simp add: main_def Let_def)

lemma process_pending_skip:
  "read_text env (pending_dir self @ [f]) v = Inr t \<Longrightarrow> strip t = [] \<Longrightarrow>
   process_pending self env a (f # others) counts v = process_pending self env a others counts v"
  by (simp add: Let_def)

subsection \<open>A batch of one idea\<close>

text \<open>The run of \<^verbatim>\<open>main\<close> over a queue of one non-empty idea file, when every collaborator
  answers. \<open>w\<close> is the world the constructor leaves.\<close>

lemma single_idea_run:
  assumes init: "init_agent env w0 = (Inr self, w)"
    and queue: "get_pending_ideas self w = [name]"
    and rd: "read_text env (pending_dir self @ [name]) w = Inr text" "strip text \<noteq> []"
    and sp: "load_system_prompt self env w = Inr sp"
    and an: "generate_content env (tick w + 1)
               (sp @ nl @ nl @ ''Here is the business idea for you to analyze:'' @ nl @ nl @
                strip text)
             = Inr (Some c)" "c \<noteq> []"
    and folder: "is_dir w (idea_folder self env (strip text) w)
                 \<or> \<not> path_exists w (idea_folder self env (strip text) w)"
    and targets: "\<forall>x \<in> set [''_audio.wav'', ''_analysis.md'', ''_analysis.pdf'', ''_analysis.txt''].
        \<not> is_dir w (idea_folder self env (strip text) w @ [idea_slug self env (strip text) w @ x])"
    and stream: "generate_content_stream env (tick w + 5)
                   (voice_instruction (arg_voice_style a) @ nl @ nl @ c)
                   = map Inr pre @ Inr ch # rest"
      "\<forall>x \<in> set pre. inline_audio x = None" "inline_audio ch = Some (bytes, mime)"
    and audio: "(guess_extension env mime = Some ext \<and> written = bytes)
           \<or> (guess_extension env mime = None \<and> ext = ''.wav''
               \<and> convert_to_wav self (int_max_str_digits env) bytes mime = Inr written)"
    and tmp: "\<not> is_dir w (audio_target self env (w\<lparr>tick := tick w + 4\<rparr>) ext)"
    and pdf: "build_pdf env (tick w + 8) (strftime_long (now env (tick w + 7))) (strip text) c
              = Inr pdfb"
    and ev: "\<not> is_dir w (evaluated_dir self @ [name])"
  shows "\<exists>flag w'.
      main env a w0 = (Summary 1 0, w')
    \<and> process_business_idea self env (strip text) (arg_voice_style a) (\<not> arg_no_email a)
        (Some (pending_dir self @ [name])) w =
        (Inr \<lparr>timestamp = isoformat (now env (tick w)), business_idea = strip text,
              voice_style = arg_voice_style a, analysis_text = c,
              audio_file = idea_folder self env (strip text) w
                 @ [idea_slug self env (strip text) w @ ''_audio.wav''],
              email_sent = flag,
              markdown_file = idea_folder self env (strip text) w
                 @ [idea_slug self env (strip text) w @ ''_analysis.md''],
              pdf_file = idea_folder self env (strip text) w
                 @ [idea_slug self env (strip text) w @ ''_analysis.pdf''],
              text_file = idea_folder self env (strip text) w
                 @ [idea_slug self env (strip text) w @ ''_analysis.txt''],
              moved_to_evaluated = Some (evaluated_dir self @ [name])\<rparr>, w')
    \<and> lookup w' = (lookup w)
        (idea_folder self env (strip text) w \<mapsto> Dir,
         audio_target self env (w\<lparr>tick := tick w + 4\<rparr>) ext := None,
         idea_folder self env (strip text) w @ [idea_slug self env (strip text) w @ ''_audio.wav'']
           \<mapsto> File (Bytes written),
         idea_folder self env (strip text) w @ [idea_slug self env (strip text) w @ ''_analysis.md'']
           \<mapsto> File (Text (markdown_content (strftime_long (now env (tick w + 6)))
                 (strip text) c)),
         idea_folder self env (strip text) w @ [idea_slug self env (strip text) w @ ''_analysis.pdf'']
           \<mapsto> File (Bytes pdfb),
         idea_folder self env (strip text) w @ [idea_slug self env (strip text) w @ ''_analysis.txt'']
           \<mapsto> File (Text c),
         pending_dir self @ [name] := None,
         evaluated_dir self @ [name] := lookup w (pending_dir self @ [name]))
    \<and> get_pending_ideas self w' = []
    \<and> set (dirs_of w') = insert (idea_folder self env (strip text) w) (set (dirs_of w))
    \<and> (children w (idea_folder self env (strip text) w) = [] \<longrightarrow>
         set (children w' (idea_folder self env (strip text) w)) =
           {idea_folder self env (strip text) w @ [idea_slug self env (strip text) w @ ''_audio.wav''],
            idea_folder self env (strip text) w @ [idea_slug self env (strip text) w @ ''_analysis.md''],
            idea_folder self env (strip text) w @ [idea_slug self env (strip text) w @ ''_analysis.pdf''],
            idea_folder self env (strip text) w @ [idea_slug self env (strip text) w @ ''_analysis.txt'']})
    \<and> (arg_no_email a \<or> text_of (getenv env ''RESEND_API_KEY'') = [] \<longrightarrow>
         flag = False \<and> sent w' = sent w)"
proof -
  note i = init_agent_Inr [OF init]
  have dirs: "output_dir self = [''agent'', ''feedback'']"
    "pending_dir self = [''agent'', ''user-ideas'', ''pending'']"
    "evaluated_dir self = [''agent'', ''user-ideas'', ''evaluated'']"
    using i(1) by (simp_all add: standard_dirs_def)
  obtain cnt where cnt: "lookup w (pending_dir self @ [name]) = Some (File cnt)"
    using read_text_file [OF rd(1)] by blast
  define slug where "slug = idea_slug self env (strip text) w"
  define X where "X = folder_name (strftime_stamp (now env (Suc (Suc (Suc (tick w)))))) slug"
  define T where "T = audio_target self env (w\<lparr>tick := tick w + 4\<rparr>) ext"
  have F: "idea_folder self env (strip text) w = [''agent'', ''feedback'', X]"
    by (simp add: idea_folder_def dirs X_def slug_def)
  obtain Y where TY: "T = [''agent'', ''feedback'', Y]"
    by (simp add: T_def audio_target_def dirs)
  have XY: "X \<noteq> Y"
    using audio_target_not_folder [of self env "w\<lparr>tick := tick w + 4\<rparr>" ext "strip text" w]
    unfolding F T_def [symmetric] TY by simp
  from process_business_idea_succeeds [OF i(1) sp an i(2) folder targets stream audio
      audio_target_not_folder tmp pdf cnt i(3) ev, of "\<not> arg_no_email a"]
  obtain flag w' where
    run: "process_business_idea self env (strip text) (arg_voice_style a) (\<not> arg_no_email a)
        (Some (pending_dir self @ [name])) w =
        (Inr \<lparr>timestamp = isoformat (now env (tick w)), business_idea = strip text,
              voice_style = arg_voice_style a, analysis_text = c,
              audio_file = idea_folder self env (strip text) w
                 @ [idea_slug self env (strip text) w @ ''_audio.wav''],
              email_sent = flag,
              markdown_file = idea_folder self env (strip text) w
                 @ [idea_slug self env (strip text) w @ ''_analysis.md''],
              pdf_file = idea_folder self env (strip text) w
                 @ [idea_slug self env (strip text) w @ ''_analysis.pdf''],
              text_file = idea_folder self env (strip text) w
                 @ [idea_slug self env (strip text) w @ ''_analysis.txt''],
              moved_to_evaluated = Some (evaluated_dir self @ [name])\<rparr>, w')"
    and L: "lookup w' = (lookup w)
        (idea_folder self env (strip text) w \<mapsto> Dir,
         audio_target self env (w\<lparr>tick := tick w + 4\<rparr>) ext := None,
         idea_folder self env (strip text) w @ [idea_slug self env (strip text) w @ ''_audio.wav'']
           \<mapsto> File (Bytes written),
         idea_folder self env (strip text) w @ [idea_slug self env (strip text) w @ ''_analysis.md'']
           \<mapsto> File (Text (markdown_content (strftime_long (now env (tick w + 6)))
                 (strip text) c)),
         idea_folder self env (strip text) w @ [idea_slug self env (strip text) w @ ''_analysis.pdf'']
           \<mapsto> File (Bytes pdfb),
         idea_folder self env (strip text) w @ [idea_slug self env (strip text) w @ ''_analysis.txt'']
           \<mapsto> File (Text c),
         pending_dir self @ [name] := None,
         evaluated_dir self @ [name] \<mapsto> File cnt)"
    and Q: "get_pending_ideas self w' = removeAll name (get_pending_ideas self w)"
    and off: "((\<not> arg_no_email a) \<longrightarrow> text_of (resend_api_key self) = []) \<longrightarrow>
                flag = False \<and> sent w' = sent w"
    by blast
  have m: "main env a w0 = (Summary 1 0, w')"
    by (rule main_one [OF init queue rd run])
  have q: "get_pending_ideas self w' = []" by (simp add: Q queue)
  have L': "lookup w' = (lookup w)
        ([''agent'', ''feedback'', X] \<mapsto> Dir,
         [''agent'', ''feedback'', Y] := None,
         [''agent'', ''feedback'', X, slug @ ''_audio.wav''] \<mapsto> File (Bytes written),
         [''agent'', ''feedback'', X, slug @ ''_analysis.md'']
           \<mapsto> File (Text (markdown_content (strftime_long (now env (tick w + 6)))
                 (strip text) c)),
         [''agent'', ''feedback'', X, slug @ ''_analysis.pdf''] \<mapsto> File (Bytes pdfb),
         [''agent'', ''feedback'', X, slug @ ''_analysis.txt''] \<mapsto> File (Text c),
         [''agent'', ''user-ideas'', ''pending'', name] := None,
         [''agent'', ''user-ideas'', ''evaluated'', name] \<mapsto> File cnt)"
    using L unfolding F T_def [symmetric] TY slug_def [symmetric] dirs by simp
  have nd: "lookup w [''agent'', ''feedback'', Y] \<noteq> Some Dir"
    "lookup w [''agent'', ''feedback'', X, slug @ ''_audio.wav''] \<noteq> Some Dir"
    "lookup w [''agent'', ''feedback'', X, slug @ ''_analysis.md''] \<noteq> Some Dir"
    "lookup w [''agent'', ''feedback'', X, slug @ ''_analysis.pdf''] \<noteq> Some Dir"
    "lookup w [''agent'', ''feedback'', X, slug @ ''_analysis.txt''] \<noteq> Some Dir"
    "lookup w [''agent'', ''user-ideas'', ''pending'', name] \<noteq> Some Dir"
    "lookup w [''agent'', ''user-ideas'', ''evaluated'', name] \<noteq> Some Dir"
    using tmp targets ev cnt
    unfolding F T_def [symmetric] TY slug_def [symmetric] dirs
    by (simp_all add: is_dir_def)
  have d: "set (dirs_of w') = insert [''agent'', ''feedback'', X] (set (dirs_of w))"
    unfolding set_dirs_of L' using nd XY by (auto split: if_splits)
  have ch: "set (children w' [''agent'', ''feedback'', X]) =
           {[''agent'', ''feedback'', X, slug @ ''_audio.wav''],
            [''agent'', ''feedback'', X, slug @ ''_analysis.md''],
            [''agent'', ''feedback'', X, slug @ ''_analysis.pdf''],
            [''agent'', ''feedback'', X, slug @ ''_analysis.txt'']}"
    if e: "children w [''agent'', ''feedback'', X] = []"
  proof -
    have none: "lookup w p = None" if "p \<noteq> []" "butlast p = [''agent'', ''feedback'', X]" for p
    proof -
      from that have "p = [''agent'', ''feedback'', X] @ [last p]"
        using append_butlast_last_id [of p] by simp
      then show ?thesis using children_empty [OF e, of "last p"] by simp
    qed
    show ?thesis
      unfolding set_children L' using none by (auto split: if_splits)
  qed
  have off': "flag = False \<and> sent w' = sent w"
    if "arg_no_email a \<or> text_of (getenv env ''RESEND_API_KEY'') = []"
    using that off by (auto simp: i(4))
  have L'': "lookup w' = (lookup w)
        ([''agent'', ''feedback'', X] \<mapsto> Dir,
         [''agent'', ''feedback'', Y] := None,
         [''agent'', ''feedback'', X, slug @ ''_audio.wav''] \<mapsto> File (Bytes written),
         [''agent'', ''feedback'', X, slug @ ''_analysis.md'']
           \<mapsto> File (Text (markdown_content (strftime_long (now env (tick w + 6)))
                 (strip text) c)),
         [''agent'', ''feedback'', X, slug @ ''_analysis.pdf''] \<mapsto> File (Bytes pdfb),
         [''agent'', ''feedback'', X, slug @ ''_analysis.txt''] \<mapsto> File (Text c),
         [''agent'', ''user-ideas'', ''pending'', name] := None,
         [''agent'', ''user-ideas'', ''evaluated'', name] :=
            lookup w [''agent'', ''user-ideas'', ''pending'', name])"
    using L' cnt by (simp add: dirs)
  show ?thesis
    unfolding F T_def [symmetric] TY slug_def [symmetric] dirs
    using m run [unfolded F slug_def [symmetric] dirs] L'' q d ch off'
    by (intro exI [of _ flag] exI [of _ w']) simp
qed

end
